theory Spec2Isabelle
  imports Main "HOL-Library.Multiset"
begin

section \<open>JavaScript values used by the integration routes\<close>

text \<open>
  The routes of \<^verbatim>\<open>server-supabase.js\<close> read nullable text columns and document
  fields. A field is modelled as \<open>string option\<close>: \<open>None\<close> stands for
  \<^verbatim>\<open>null\<close>/\<^verbatim>\<open>undefined\<close>, \<open>Some s\<close> for the string \<open>s\<close>. Strings are ASCII
  character lists; \<^verbatim>\<open>toLowerCase\<close> and \<^verbatim>\<open>trim\<close> are modelled on that range:
  the letters A to Z are lowered, and blank, tab, line feed, vertical tab, form feed and
  carriage return are trimmed. Text with other capitals or other white space (a
  no-break space, say) is outside the model.
\<close>

definition truthy :: "string option \<Rightarrow> bool" where
  "truthy x = (case x of None \<Rightarrow> False | Some s \<Rightarrow> s \<noteq> [])"

definition or_empty :: "string option \<Rightarrow> string" where
  "or_empty x = (case x of None \<Rightarrow> [] | Some s \<Rightarrow> s)"

definition toLowerCase_char :: "char \<Rightarrow> char" where
  "toLowerCase_char c =
     (case map_of (zip ''ABCDEFGHIJKLMNOPQRSTUVWXYZ'' ''abcdefghijklmnopqrstuvwxyz'') c of
        None \<Rightarrow> c
      | Some l \<Rightarrow> l)"

definition toLowerCase :: "string \<Rightarrow> string" where
  "toLowerCase s = map toLowerCase_char s"

definition is_space :: "char \<Rightarrow> bool" where
  "is_space c = (c \<in> set [CHR '' '', CHR 0x09, CHR 0x0A, CHR 0x0B, CHR 0x0C, CHR 0x0D])"

definition trim :: "string \<Rightarrow> string" where
  "trim s = rev (dropWhile is_space (rev (dropWhile is_space s)))"

text \<open>\<^verbatim>\<open>(x || '').toLowerCase().trim()\<close>\<close>

definition lower_trim :: "string \<Rightarrow> string" where
  "lower_trim s = trim (toLowerCase s)"

text \<open>\<^verbatim>\<open>s.includes(t)\<close>: \<open>t\<close> occurs in \<open>s\<close> as a contiguous run.\<close>

fun starts_with :: "string \<Rightarrow> string \<Rightarrow> bool" where
  "starts_with s [] = True"
| "starts_with [] (b # t) = False"
| "starts_with (a # s) (b # t) = (a = b \<and> starts_with s t)"

fun str_includes :: "string \<Rightarrow> string \<Rightarrow> bool" where
  "str_includes [] t = (t = [])"
| "str_includes (a # s) t = (starts_with (a # s) t \<or> str_includes s t)"

text \<open>\<^verbatim>\<open>p.replace(/\D/g, '').slice(-10)\<close>\<close>

definition is_digit :: "char \<Rightarrow> bool" where
  "is_digit c = (c \<in> set ''0123456789'')"

definition strip_non_digits :: "string \<Rightarrow> string" where
  "strip_non_digits s = filter is_digit s"

definition slice_last10 :: "string \<Rightarrow> string" where
  "slice_last10 s = drop (length s - 10) s"

definition phone_key :: "string \<Rightarrow> string" where
  "phone_key p = slice_last10 (strip_non_digits p)"

text \<open>\<^verbatim>\<open>[a, b].filter(Boolean).join(' ')\<close>\<close>

fun join_space :: "string list \<Rightarrow> string" where
  "join_space [] = []"
| "join_space [x] = x"
| "join_space (x # y # ys) = x @ '' '' @ join_space (y # ys)"

definition full_name :: "string option \<Rightarrow> string option \<Rightarrow> string" where
  "full_name f l = join_space (map or_empty (filter truthy [f, l]))"

section \<open>Records of the two stores\<close>

text \<open>
  A row of the \<^verbatim>\<open>companies\<close> table (the columns the integration routes read or
  write). The \<^verbatim>\<open>email\<close> column holds whatever the link route wrote: a string, or the
  first email contact itself when that contact carries no usable \<^verbatim>\<open>email\<close>.
\<close>

datatype email_contact = ContactString string | ContactObject "string option"

record company =
  c_id :: string
  c_name :: "string option"
  c_type :: "string option"
  c_contact_name :: "string option"
  c_address :: "string option"
  c_city :: "string option"
  c_state :: "string option"
  c_zip :: "string option"
  c_phone :: "string option"
  c_email :: "email_contact option"
  c_invoice_customer_id :: "string option"
  c_last_order_date :: "string option"
  c_last_estimate_date :: "string option"
  c_updated_at :: string

text \<open>A document of the Firestore collection \<^verbatim>\<open>customers\<close>.\<close>

record address =
  a_street :: "string option"
  a_city :: "string option"
  a_state :: "string option"
  a_zip :: "string option"

record customer =
  k_firstName :: "string option"
  k_lastName :: "string option"
  k_companyName :: "string option"
  k_phone :: "string option"
  k_customerType :: "string option"
  k_emailContacts :: "email_contact list"
  k_address :: "address option"

text \<open>
  Documents of \<^verbatim>\<open>estimates\<close> and \<^verbatim>\<open>invoices\<close>: the two fields the link route
  reads.
\<close>

record dated_doc =
  d_customerId :: string
  d_date :: "string option"

text \<open>
  The Firestore client. Each collection is the list of its documents, a document being
  its id and its data, in the order a snapshot iterates them.
\<close>

record firestore =
  fs_customers :: "(string \<times> customer) list"
  fs_estimates :: "(string \<times> dated_doc) list"
  fs_invoices :: "(string \<times> dated_doc) list"

section \<open>Scoring in \<^verbatim>\<open>GET /integrations/bulk-match\<close>\<close>

text \<open>The entry the route builds for each customer document (lines 1324--1334).\<close>

record invoice_customer =
  ic_id :: string
  ic_firstName :: "string option"
  ic_lastName :: "string option"
  ic_companyName :: string
  ic_phone :: string
  ic_customerType :: "string option"
  ic_name :: string

definition invoice_customer_of :: "string \<times> customer \<Rightarrow> invoice_customer" where
  "invoice_customer_of doc =
     (case doc of (docid, d) \<Rightarrow>
        \<lparr>ic_id = docid,
         ic_firstName = k_firstName d,
         ic_lastName = k_lastName d,
         ic_companyName = or_empty (k_companyName d),
         ic_phone = or_empty (k_phone d),
         ic_customerType = k_customerType d,
         ic_name = full_name (k_firstName d) (k_lastName d)\<rparr>)"

text \<open>
  Lines 1358--1378: the name rules are an \<^verbatim>\<open>if / else if\<close> chain, the phone rule a
  separate \<^verbatim>\<open>if\<close> that takes \<^verbatim>\<open>Math.max(score, 90)\<close>.
\<close>

definition bulk_name_score :: "invoice_customer \<Rightarrow> company \<Rightarrow> int" where
  "bulk_name_score ic c =
     (let crmName = lower_trim (or_empty (c_name c));
          crmContact = lower_trim (or_empty (c_contact_name c));
          icCompany = lower_trim (ic_companyName ic);
          icName = lower_trim (ic_name ic)
      in if icCompany \<noteq> [] \<and> crmName \<noteq> [] \<and> icCompany = crmName then 100
         else if icCompany \<noteq> [] \<and> crmName \<noteq> [] \<and>
                 (str_includes icCompany crmName \<or> str_includes crmName icCompany) then 80
         else if icName \<noteq> [] \<and> crmContact \<noteq> [] \<and> icName = crmContact then 70
         else if icName \<noteq> [] \<and> crmName \<noteq> [] \<and> icName = crmName then 75
         else 0)"

definition bulk_phone_match :: "invoice_customer \<Rightarrow> company \<Rightarrow> bool" where
  "bulk_phone_match ic c =
     (ic_phone ic \<noteq> [] \<and> truthy (c_phone c) \<and>
      (let p1 = phone_key (ic_phone ic); p2 = phone_key (or_empty (c_phone c))
       in p1 \<noteq> [] \<and> p2 \<noteq> [] \<and> p1 = p2))"

definition bulk_score :: "invoice_customer \<Rightarrow> company \<Rightarrow> int" where
  "bulk_score ic c =
     (let score = bulk_name_score ic c
      in if bulk_phone_match ic c then max score 90 else score)"

section \<open>Scoring in \<^verbatim>\<open>GET /integrations/match/:companyId\<close>\<close>

text \<open>
  Lines 1199--1218: here the phone rule is the last \<^verbatim>\<open>else if\<close> of the chain, and
  there is no rule for the full name against the company name.
\<close>

definition match_score :: "company \<Rightarrow> customer \<Rightarrow> int" where
  "match_score company d =
     (let companyName = lower_trim (or_empty (k_companyName d));
          fullName = lower_trim (full_name (k_firstName d) (k_lastName d));
          crmName = lower_trim (or_empty (c_name company));
          crmContact = lower_trim (or_empty (c_contact_name company))
      in if companyName \<noteq> [] \<and> crmName \<noteq> [] \<and> companyName = crmName then 100
         else if companyName \<noteq> [] \<and> crmName \<noteq> [] \<and>
                 (str_includes companyName crmName \<or> str_includes crmName companyName) then 80
         else if fullName \<noteq> [] \<and> crmContact \<noteq> [] \<and> fullName = crmContact then 70
         else if truthy (k_phone d) \<and> truthy (c_phone company) then
           (let p1 = phone_key (or_empty (k_phone d));
                p2 = phone_key (or_empty (c_phone company))
            in if p1 \<noteq> [] \<and> p2 \<noteq> [] \<and> p1 = p2 then 90 else 0)
         else 0)"

section \<open>The \<^verbatim>\<open>companies\<close> table and the HTTP responses\<close>

text \<open>
  A response is either an error status with its \<^verbatim>\<open>error\<close> text or the JSON body sent
  with status 200. Both stores are taken to be reachable: the only store error modelled is
  the one \<^verbatim>\<open>.single()\<close> reports when the selection is not exactly one row, which the
  routes rethrow into their \<^verbatim>\<open>catch\<close> (status 500 with the error's message).
\<close>

datatype 'a response = Failure nat string | Json 'a

definition select_single :: "company list \<Rightarrow> string \<Rightarrow> string + company" where
  "select_single rows cid =
     (case filter (\<lambda>c. c_id c = cid) rows of
        [c] \<Rightarrow> Inr c
      | _ \<Rightarrow> Inl ''JSON object requested, multiple (or no) rows returned'')"

section \<open>\<^verbatim>\<open>GET /integrations/match/:companyId\<close>\<close>

text \<open>
  The body keeps \<^verbatim>\<open>matched\<close>, \<^verbatim>\<open>matchScore\<close>, \<^verbatim>\<open>linked\<close> (absent from
  the body of a searched match, read as false) and \<^verbatim>\<open>customer.id\<close>; the estimate and
  invoice listings sent along are left out. \<open>NotMatched\<close> carries the company's name.
\<close>

datatype match_body = NotMatched "string option" | Matched int bool string

definition match_step ::
  "company \<Rightarrow> string \<times> customer \<Rightarrow> (string \<times> customer) option \<times> int
     \<Rightarrow> (string \<times> customer) option \<times> int" where
  "match_step company doc acc =
     (case acc of (match, matchScore) \<Rightarrow>
        (let score = match_score company (snd doc)
         in if score > matchScore then (Some doc, score) else (match, matchScore)))"

definition linked_customer :: "firestore \<Rightarrow> company \<Rightarrow> customer option" where
  "linked_customer fs company =
     (if truthy (c_invoice_customer_id company)
      then map_of (fs_customers fs) (or_empty (c_invoice_customer_id company))
      else None)"

definition match_company ::
  "firestore option \<Rightarrow> company list \<Rightarrow> string \<Rightarrow> match_body response" where
  "match_company fso rows companyId =
     (case fso of
        None \<Rightarrow> Failure 503 ''Invoice integration not configured''
      | Some fs \<Rightarrow>
          (case select_single rows companyId of
             Inl e \<Rightarrow> Failure 500 e
           | Inr company \<Rightarrow>
               (case linked_customer fs company of
                  Some custData \<Rightarrow>
                    Json (Matched 100 True (or_empty (c_invoice_customer_id company)))
                | None \<Rightarrow>
                    (case fold (match_step company) (fs_customers fs) (None, 0) of
                       (None, matchScore) \<Rightarrow> Json (NotMatched (c_name company))
                     | (Some doc, matchScore) \<Rightarrow>
                         if matchScore < 60 then Json (NotMatched (c_name company))
                         else Json (Matched matchScore False (fst doc))))))"

section \<open>\<^verbatim>\<open>GET /integrations/bulk-match\<close>\<close>

record match_ref =
  m_id :: string
  m_name :: "string option"

record result_row =
  r_invoiceCustomer :: invoice_customer
  r_match :: "match_ref option"
  r_score :: int
  r_status :: string

definition bulk_step ::
  "invoice_customer \<Rightarrow> company \<Rightarrow> match_ref option \<times> int \<Rightarrow> match_ref option \<times> int" where
  "bulk_step ic c acc =
     (case acc of (bestMatch, bestScore) \<Rightarrow>
        if truthy (c_invoice_customer_id c) then (bestMatch, bestScore)
        else (let score = bulk_score ic c
              in if score > bestScore then (Some \<lparr>m_id = c_id c, m_name = c_name c\<rparr>, score)
                 else (bestMatch, bestScore)))"

definition bulk_row :: "company list \<Rightarrow> invoice_customer \<Rightarrow> result_row" where
  "bulk_row companies ic =
     (case find (\<lambda>c. c_invoice_customer_id c = Some (ic_id ic)) companies of
        Some linkedCompany \<Rightarrow>
          \<lparr>r_invoiceCustomer = ic,
           r_match = Some \<lparr>m_id = c_id linkedCompany, m_name = c_name linkedCompany\<rparr>,
           r_score = 100,
           r_status = ''linked''\<rparr>
      | None \<Rightarrow>
          (case fold (bulk_step ic) companies (None, 0) of
             (bestMatch, bestScore) \<Rightarrow>
               \<lparr>r_invoiceCustomer = ic,
                r_match = bestMatch,
                r_score = bestScore,
                r_status = (if bestScore \<ge> 70 then ''suggested'' else ''unmatched'')\<rparr>))"

text \<open>
  Line 1395--1396: \<^verbatim>\<open>(order[a.status] ?? 9) - (order[b.status] ?? 9) || b.score - a.score\<close>.
\<close>

definition order_of :: "string \<Rightarrow> int" where
  "order_of st =
     (if st = ''suggested'' then 0
      else if st = ''unmatched'' then 1
      else if st = ''linked'' then 2
      else 9)"

definition compare_rows :: "result_row \<Rightarrow> result_row \<Rightarrow> int" where
  "compare_rows a b =
     (let d = order_of (r_status a) - order_of (r_status b)
      in if d \<noteq> 0 then d else r_score b - r_score a)"

text \<open>
  \<^verbatim>\<open>Array.prototype.sort\<close> is stable and, for a consistent comparator, returns the
  elements in comparator order; it is modelled as a stable insertion sort.
\<close>

fun insert_by :: "('a \<Rightarrow> 'a \<Rightarrow> int) \<Rightarrow> 'a \<Rightarrow> 'a list \<Rightarrow> 'a list" where
  "insert_by cmp x [] = [x]"
| "insert_by cmp x (y # ys) = (if cmp x y \<le> 0 then x # y # ys else y # insert_by cmp x ys)"

definition sort_by :: "('a \<Rightarrow> 'a \<Rightarrow> int) \<Rightarrow> 'a list \<Rightarrow> 'a list" where
  "sort_by cmp xs = foldr (insert_by cmp) xs []"

record crm_company =
  cc_id :: string
  cc_name :: "string option"
  cc_invoice_customer_id :: "string option"

record bulk_body =
  b_results :: "result_row list"
  b_crmCompanies :: "crm_company list"

definition bulk_results :: "company list \<Rightarrow> (string \<times> customer) list \<Rightarrow> result_row list" where
  "bulk_results companies docs =
     (let invoiceCustomers = map invoice_customer_of docs;
          results = map (bulk_row companies) invoiceCustomers
      in sort_by compare_rows results)"

definition bulk_match :: "firestore option \<Rightarrow> company list \<Rightarrow> bulk_body response" where
  "bulk_match fso companies =
     (case fso of
        None \<Rightarrow> Failure 503 ''Invoice integration not configured''
      | Some fs \<Rightarrow>
          Json \<lparr>b_results = bulk_results companies (fs_customers fs),
                b_crmCompanies =
                  map (\<lambda>c. \<lparr>cc_id = c_id c, cc_name = c_name c,
                             cc_invoice_customer_id = c_invoice_customer_id c\<rparr>) companies\<rparr>)"

section \<open>\<^verbatim>\<open>POST /integrations/link\<close>\<close>

text \<open>
  The \<^verbatim>\<open>updates\<close> object. \<open>None\<close> in an optional field means that the key was
  never assigned, so the column is not touched by the update.
\<close>

record updates =
  u_invoice_customer_id :: string
  u_updated_at :: string
  u_phone :: "string option"
  u_email :: "email_contact option"
  u_contact_name :: "string option"
  u_address :: "string option"
  u_city :: "string option"
  u_state :: "string option"
  u_zip :: "string option"
  u_last_estimate_date :: "string option"
  u_last_order_date :: "string option"
  u_type :: "string option"

definition email_truthy :: "email_contact option \<Rightarrow> bool" where
  "email_truthy x =
     (case x of
        None \<Rightarrow> False
      | Some (ContactString s) \<Rightarrow> s \<noteq> []
      | Some (ContactObject e) \<Rightarrow> True)"

text \<open>\<^verbatim>\<open>custData.emailContacts[0].email || custData.emailContacts[0]\<close>\<close>

definition email_or_self :: "email_contact \<Rightarrow> email_contact" where
  "email_or_self e =
     (case e of
        ContactString s \<Rightarrow> ContactString s
      | ContactObject m \<Rightarrow> (if truthy m then ContactString (or_empty m) else ContactObject m))"

text \<open>Lines 1431--1442: auto-fill of missing contact fields.\<close>

definition enrich_address :: "company \<Rightarrow> address \<Rightarrow> updates \<Rightarrow> updates" where
  "enrich_address company a u =
     (let u1 = (if truthy (a_street a) then u\<lparr>u_address := a_street a\<rparr> else u);
          u2 = (if truthy (a_city a) \<and> \<not> truthy (c_city company)
                then u1\<lparr>u_city := a_city a\<rparr> else u1);
          u3 = (if truthy (a_state a) \<and> \<not> truthy (c_state company)
                then u2\<lparr>u_state := a_state a\<rparr> else u2)
      in if truthy (a_zip a) \<and> \<not> truthy (c_zip company)
         then u3\<lparr>u_zip := a_zip a\<rparr> else u3)"

definition enrich :: "company \<Rightarrow> customer \<Rightarrow> updates \<Rightarrow> updates" where
  "enrich company custData u =
     (let u1 = (if \<not> truthy (c_phone company) \<and> truthy (k_phone custData)
                then u\<lparr>u_phone := k_phone custData\<rparr> else u);
          u2 = (case k_emailContacts custData of
                  [] \<Rightarrow> u1
                | e # rest \<Rightarrow>
                    if \<not> email_truthy (c_email company)
                    then u1\<lparr>u_email := Some (email_or_self e)\<rparr> else u1);
          u3 = (if \<not> truthy (c_contact_name company)
                then (let name = full_name (k_firstName custData) (k_lastName custData)
                      in if name \<noteq> [] then u2\<lparr>u_contact_name := Some name\<rparr> else u2)
                else u2)
      in case k_address custData of
           None \<Rightarrow> u3
         | Some a \<Rightarrow> if \<not> truthy (c_address company) then enrich_address company a u3 else u3)"

text \<open>
  Lines 1452--1465: the latest date of a snapshot. JavaScript's \<^verbatim>\<open>></\<close> on strings
  compares code units lexicographically.
\<close>

fun str_gt :: "string \<Rightarrow> string \<Rightarrow> bool" where
  "str_gt [] t = False"
| "str_gt (a # s) [] = True"
| "str_gt (a # s) (b # t) =
     ((of_char a :: nat) > of_char b \<or> (of_char a = (of_char b :: nat) \<and> str_gt s t))"

definition latest_step :: "string \<times> dated_doc \<Rightarrow> string option \<Rightarrow> string option" where
  "latest_step doc latest =
     (let d = d_date (snd doc)
      in if truthy d \<and> (\<not> truthy latest \<or> str_gt (or_empty d) (or_empty latest)) then d
         else latest)"

definition where_customer :: "string \<Rightarrow> (string \<times> dated_doc) list \<Rightarrow> (string \<times> dated_doc) list" where
  "where_customer cid docs = filter (\<lambda>doc. d_customerId (snd doc) = cid) docs"

definition latest_date :: "(string \<times> dated_doc) list \<Rightarrow> string option" where
  "latest_date snap = fold latest_step snap None"

text \<open>Lines 1446--1470: date sync and the upgrade of the type.\<close>

definition sync_dates :: "firestore \<Rightarrow> company \<Rightarrow> string \<Rightarrow> updates \<Rightarrow> updates" where
  "sync_dates fs company invoiceCustomerId u =
     (let estSnap = where_customer invoiceCustomerId (fs_estimates fs);
          invSnap = where_customer invoiceCustomerId (fs_invoices fs);
          latestEstDate = latest_date estSnap;
          u1 = (if truthy latestEstDate then u\<lparr>u_last_estimate_date := latestEstDate\<rparr> else u);
          latestInvDate = latest_date invSnap;
          u2 = (if truthy latestInvDate then u1\<lparr>u_last_order_date := latestInvDate\<rparr> else u1)
      in if invSnap \<noteq> [] \<and> c_type company \<noteq> Some ''Customer''
         then u2\<lparr>u_type := Some ''Customer''\<rparr> else u2)"

text \<open>Lines 1419--1422: the object the route starts from.\<close>

definition initial_updates :: "string \<Rightarrow> string \<Rightarrow> updates" where
  "initial_updates invoiceCustomerId now =
     \<lparr>u_invoice_customer_id = invoiceCustomerId, u_updated_at = now,
      u_phone = None, u_email = None, u_contact_name = None, u_address = None,
      u_city = None, u_state = None, u_zip = None,
      u_last_estimate_date = None, u_last_order_date = None, u_type = None\<rparr>"

definition link_updates :: "firestore option \<Rightarrow> company \<Rightarrow> string \<Rightarrow> string \<Rightarrow> updates" where
  "link_updates fso company invoiceCustomerId now =
     (let u = initial_updates invoiceCustomerId now
      in case fso of
           None \<Rightarrow> u
         | Some fs \<Rightarrow>
             sync_dates fs company invoiceCustomerId
               (case map_of (fs_customers fs) invoiceCustomerId of
                  None \<Rightarrow> u
                | Some custData \<Rightarrow> enrich company custData u))"

text \<open>\<^verbatim>\<open>supabase.from('companies').update(updates).eq('id', companyId)\<close>\<close>

definition assigned :: "'a option \<Rightarrow> 'a option \<Rightarrow> 'a option" where
  "assigned new old = (case new of None \<Rightarrow> old | Some v \<Rightarrow> Some v)"

definition apply_updates :: "updates \<Rightarrow> company \<Rightarrow> company" where
  "apply_updates u c =
     c\<lparr>c_invoice_customer_id := Some (u_invoice_customer_id u),
       c_updated_at := u_updated_at u,
       c_phone := assigned (u_phone u) (c_phone c),
       c_email := assigned (u_email u) (c_email c),
       c_contact_name := assigned (u_contact_name u) (c_contact_name c),
       c_address := assigned (u_address u) (c_address c),
       c_city := assigned (u_city u) (c_city c),
       c_state := assigned (u_state u) (c_state c),
       c_zip := assigned (u_zip u) (c_zip c),
       c_last_estimate_date := assigned (u_last_estimate_date u) (c_last_estimate_date c),
       c_last_order_date := assigned (u_last_order_date u) (c_last_order_date c),
       c_type := assigned (u_type u) (c_type c)\<rparr>"

definition update_rows :: "updates \<Rightarrow> string \<Rightarrow> company list \<Rightarrow> company list" where
  "update_rows u cid rows = map (\<lambda>c. if c_id c = cid then apply_updates u c else c) rows"

text \<open>
  Lines 1480--1487: the entries of \<^verbatim>\<open>autoUpdated\<close>, in the order pushed. The
  constructors stand for the literals \<^verbatim>\<open>'type -> Customer'\<close> (written with an arrow
  character in the source), \<^verbatim>\<open>'last order date synced'\<close>,
  \<^verbatim>\<open>'last estimate date synced'\<close>, \<^verbatim>\<open>'phone added'\<close>, \<^verbatim>\<open>'email added'\<close>,
  \<^verbatim>\<open>'contact name added'\<close> and \<^verbatim>\<open>'address added'\<close>.
\<close>

datatype summary_entry =
  TypeToCustomer | LastOrderDateSynced | LastEstimateDateSynced
  | PhoneAdded | EmailAdded | ContactNameAdded | AddressAdded

definition auto_updated :: "updates \<Rightarrow> company \<Rightarrow> summary_entry list" where
  "auto_updated u company =
     (if u_type u = Some ''Customer'' \<and> c_type company \<noteq> Some ''Customer''
      then [TypeToCustomer] else []) @
     (if truthy (u_last_order_date u) then [LastOrderDateSynced] else []) @
     (if truthy (u_last_estimate_date u) then [LastEstimateDateSynced] else []) @
     (if truthy (u_phone u) \<and> \<not> truthy (c_phone company) then [PhoneAdded] else []) @
     (if email_truthy (u_email u) \<and> \<not> email_truthy (c_email company) then [EmailAdded] else []) @
     (if truthy (u_contact_name u) \<and> \<not> truthy (c_contact_name company)
      then [ContactNameAdded] else []) @
     (if truthy (u_city u) \<and> \<not> truthy (c_city company) then [AddressAdded] else [])"

text \<open>
  The route: the response and the table after it. \<open>now\<close> is the timestamp
  \<^verbatim>\<open>new Date().toISOString()\<close>; \<open>companyId\<close> and \<open>invoiceCustomerId\<close> are the two
  fields of the request body. The body of the 200 response is
  \<^verbatim>\<open>{ message: 'Linked successfully', autoUpdated }\<close>.
\<close>

datatype link_body = LinkedSuccessfully "summary_entry list"

definition link_company ::
  "firestore option \<Rightarrow> company list \<Rightarrow> string \<Rightarrow> string option \<Rightarrow> string option
     \<Rightarrow> link_body response \<times> company list" where
  "link_company fso rows now companyId invoiceCustomerId =
     (if \<not> truthy companyId \<or> \<not> truthy invoiceCustomerId
      then (Failure 400 ''companyId and invoiceCustomerId required'', rows)
      else (case select_single rows (or_empty companyId) of
              Inl e \<Rightarrow> (Failure 500 e, rows)
            | Inr company \<Rightarrow>
                (let u = link_updates fso company (or_empty invoiceCustomerId) now
                 in (Json (LinkedSuccessfully (auto_updated u company)),
                     update_rows u (or_empty companyId) rows))))"

section \<open>The week bucket of \<^verbatim>\<open>GET /reports/activity\<close>\<close>

text \<open>
  Lines 1757--1760 use the built-in \<^verbatim>\<open>Date\<close>. A \<^verbatim>\<open>Date\<close> is its time value,
  the milliseconds since 1970-01-01T00:00Z. The host's time zone is a fixed offset
  \<open>tza\<close> from UTC in milliseconds (local time is \<open>t + tza\<close>); zones with daylight
  saving are outside the model. Days are converted to and from the proleptic Gregorian
  calendar.
\<close>

definition msPerDay :: int where
  "msPerDay = 86400000"

definition days_from_civil :: "int \<Rightarrow> int \<Rightarrow> int \<Rightarrow> int" where
  "days_from_civil y m d =
     (let y1 = (if m \<le> 2 then y - 1 else y);
          era = y1 div 400;
          yoe = y1 - era * 400;
          doy = (153 * (if m > 2 then m - 3 else m + 9) + 2) div 5 + d - 1;
          doe = yoe * 365 + yoe div 4 - yoe div 100 + doy
      in era * 146097 + doe - 719468)"

definition civil_from_days :: "int \<Rightarrow> int \<times> int \<times> int" where
  "civil_from_days z =
     (let z1 = z + 719468;
          era = z1 div 146097;
          doe = z1 - era * 146097;
          yoe = (doe - doe div 1460 + doe div 36524 - doe div 146096) div 365;
          doy = doe - (365 * yoe + yoe div 4 - yoe div 100);
          mp = (5 * doy + 2) div 153;
          d = doy - (153 * mp + 2) div 5 + 1;
          m = (if mp < 10 then mp + 3 else mp - 9);
          y = yoe + era * 400
      in (if m \<le> 2 then y + 1 else y, m, d))"

text \<open>
  \<^verbatim>\<open>new Date(s)\<close> for the two ISO forms a timestamp column is read back in: a
  date-only string is UTC midnight, a date-time string without offset is local time.
  \<open>None\<close> is returned for everything else, which the model does not cover: strings
  with a zone designator, with fractions of a second or with a blank in place of the T,
  days past the end of their month (which a runtime may roll over into the next month),
  and strings that are no date at all.
\<close>

definition digit_value :: "char \<Rightarrow> int option" where
  "digit_value c = map_of (zip ''0123456789'' [0, 1, 2, 3, 4, 5, 6, 7, 8, 9]) c"

fun decimal :: "string \<Rightarrow> int \<Rightarrow> int option" where
  "decimal [] acc = Some acc"
| "decimal (c # cs) acc =
     (case digit_value c of None \<Rightarrow> None | Some v \<Rightarrow> decimal cs (10 * acc + v))"

definition valid_civil :: "int \<Rightarrow> int \<Rightarrow> int \<Rightarrow> bool" where
  "valid_civil y m d =
     (1 \<le> m \<and> m \<le> 12 \<and> 1 \<le> d \<and> civil_from_days (days_from_civil y m d) = (y, m, d))"

definition parse_ymd :: "string \<Rightarrow> int option" where
  "parse_ymd s =
     (if length s = 10 \<and> s ! 4 = CHR ''-'' \<and> s ! 7 = CHR ''-'' then
        (case (decimal (take 4 s) 0, decimal (take 2 (drop 5 s)) 0, decimal (drop 8 s) 0) of
           (Some y, Some m, Some d) \<Rightarrow>
             if valid_civil y m d then Some (days_from_civil y m d) else None
         | _ \<Rightarrow> None)
      else None)"

definition parse_hms :: "string \<Rightarrow> int option" where
  "parse_hms s =
     (if length s = 8 \<and> s ! 2 = CHR '':'' \<and> s ! 5 = CHR '':'' then
        (case (decimal (take 2 s) 0, decimal (take 2 (drop 3 s)) 0, decimal (drop 6 s) 0) of
           (Some h, Some mi, Some sec) \<Rightarrow>
             if h < 24 \<and> mi < 60 \<and> sec < 60 then Some (((h * 60 + mi) * 60 + sec) * 1000)
             else None
         | _ \<Rightarrow> None)
      else None)"

definition new_Date :: "int \<Rightarrow> string \<Rightarrow> int option" where
  "new_Date tza s =
     (if length s = 10 then
        (case parse_ymd s of None \<Rightarrow> None | Some day \<Rightarrow> Some (day * msPerDay))
      else if length s = 19 \<and> s ! 10 = CHR ''T'' then
        (case (parse_ymd (take 10 s), parse_hms (drop 11 s)) of
           (Some day, Some ms) \<Rightarrow> Some (day * msPerDay + ms - tza)
         | _ \<Rightarrow> None)
      else None)"

definition getDate :: "int \<Rightarrow> int \<Rightarrow> int" where
  "getDate tza t = (case civil_from_days ((t + tza) div msPerDay) of (y, m, d) \<Rightarrow> d)"

definition getDay :: "int \<Rightarrow> int \<Rightarrow> int" where
  "getDay tza t = ((t + tza) div msPerDay + 4) mod 7"

definition setDate :: "int \<Rightarrow> int \<Rightarrow> int \<Rightarrow> int" where
  "setDate tza t dt =
     (let lt = t + tza
      in case civil_from_days (lt div msPerDay) of
           (y, m, d) \<Rightarrow> (days_from_civil y m 1 + dt - 1) * msPerDay + lt mod msPerDay - tza)"

text \<open>
  \<^verbatim>\<open>toISOString().split('T')[0]\<close>, for the years 0 to 9999 (four digits); \<open>None\<close>
  outside them.
\<close>

definition digit_char :: "int \<Rightarrow> char" where
  "digit_char n = ''0123456789'' ! nat (n mod 10)"

definition pad2 :: "int \<Rightarrow> string" where
  "pad2 n = [digit_char (n div 10), digit_char n]"

definition pad4 :: "int \<Rightarrow> string" where
  "pad4 n = [digit_char (n div 1000), digit_char (n div 100), digit_char (n div 10), digit_char n]"

definition iso_date :: "int \<Rightarrow> string option" where
  "iso_date t =
     (case civil_from_days (t div msPerDay) of
        (y, m, d) \<Rightarrow>
          if 0 \<le> y \<and> y \<le> 9999 then Some (pad4 y @ ''-'' @ pad2 m @ ''-'' @ pad2 d) else None)"

definition week_key :: "int \<Rightarrow> string \<Rightarrow> string option" where
  "week_key tza a_date =
     (case new_Date tza a_date of
        None \<Rightarrow> None
      | Some date \<Rightarrow>
          (let weekStart = date;
               weekStart1 = setDate tza weekStart (getDate tza date - getDay tza date)
           in iso_date weekStart1))"

section \<open>The scoring rule as the specification words it\<close>

text \<open>
  These definitions follow the specification, not the code: each rule on its own, and the
  score as the maximum over the rules that apply. They are compared with \<open>bulk_score\<close>
  below.
\<close>

definition spec_exact :: "invoice_customer \<Rightarrow> company \<Rightarrow> bool" where
  "spec_exact ic c =
     (lower_trim (ic_companyName ic) \<noteq> [] \<and>
      lower_trim (ic_companyName ic) = lower_trim (or_empty (c_name c)))"

definition spec_substring :: "invoice_customer \<Rightarrow> company \<Rightarrow> bool" where
  "spec_substring ic c =
     (lower_trim (ic_companyName ic) \<noteq> [] \<and> lower_trim (or_empty (c_name c)) \<noteq> [] \<and>
      (str_includes (lower_trim (ic_companyName ic)) (lower_trim (or_empty (c_name c))) \<or>
       str_includes (lower_trim (or_empty (c_name c))) (lower_trim (ic_companyName ic))))"

definition spec_contact :: "invoice_customer \<Rightarrow> company \<Rightarrow> bool" where
  "spec_contact ic c =
     (lower_trim (ic_name ic) \<noteq> [] \<and>
      lower_trim (ic_name ic) = lower_trim (or_empty (c_contact_name c)))"

definition spec_sole :: "invoice_customer \<Rightarrow> company \<Rightarrow> bool" where
  "spec_sole ic c =
     (lower_trim (ic_name ic) \<noteq> [] \<and>
      lower_trim (ic_name ic) = lower_trim (or_empty (c_name c)))"

definition spec_phone :: "invoice_customer \<Rightarrow> company \<Rightarrow> bool" where
  "spec_phone ic c =
     (phone_key (ic_phone ic) \<noteq> [] \<and>
      phone_key (ic_phone ic) = phone_key (or_empty (c_phone c)))"

definition spec_max_score :: "invoice_customer \<Rightarrow> company \<Rightarrow> int" where
  "spec_max_score ic c =
     max (if spec_exact ic c then 100 else 0)
       (max (if spec_substring ic c then 80 else 0)
          (max (if spec_contact ic c then 70 else 0)
             (max (if spec_sole ic c then 75 else 0)
                (if spec_phone ic c then 90 else 0))))"

section \<open>Example records\<close>

text \<open>A company row and a customer document with every optional field empty.\<close>

definition blank_company :: "string \<Rightarrow> company" where
  "blank_company cid =
     \<lparr>c_id = cid, c_name = None, c_type = None, c_contact_name = None, c_address = None,
      c_city = None, c_state = None, c_zip = None, c_phone = None, c_email = None,
      c_invoice_customer_id = None, c_last_order_date = None, c_last_estimate_date = None,
      c_updated_at = ''2024-01-01T00:00:00.000Z''\<rparr>"

definition blank_customer :: customer where
  "blank_customer =
     \<lparr>k_firstName = None, k_lastName = None, k_companyName = None, k_phone = None,
      k_customerType = None, k_emailContacts = [], k_address = None\<rparr>"

section \<open>Predicates used to state the properties\<close>

definition has_status :: "string \<Rightarrow> result_row \<Rightarrow> bool" where
  "has_status st r = (r_status r = st)"

definition score_descending :: "result_row list \<Rightarrow> bool" where
  "score_descending rs = sorted_wrt (\<lambda>a b. r_score b \<le> r_score a) rs"

text \<open>The comparator's order: \<open>compare_rows a b \<le> 0\<close>.\<close>

definition row_before :: "result_row \<Rightarrow> result_row \<Rightarrow> bool" where
  "row_before a b =
     (order_of (r_status a) < order_of (r_status b) \<or>
      (order_of (r_status a) = order_of (r_status b) \<and> r_score b \<le> r_score a))"

text \<open>A candidate is either absent or the id and name of a company with no link.\<close>

definition unlinked_ref :: "company list \<Rightarrow> match_ref option \<Rightarrow> bool" where
  "unlinked_ref companies bm =
     (bm = None \<or>
      (\<exists>c\<in>set companies. \<not> truthy (c_invoice_customer_id c) \<and>
         bm = Some \<lparr>m_id = c_id c, m_name = c_name c\<rparr>))"

text \<open>A field of the external address, absent when the customer has no address.\<close>

definition address_field :: "(address \<Rightarrow> string option) \<Rightarrow> customer \<Rightarrow> string option" where
  "address_field f d = (case k_address d of None \<Rightarrow> None | Some a \<Rightarrow> f a)"

text \<open>The two entries of \<^verbatim>\<open>autoUpdated\<close> that report a date sync.\<close>

definition sync_entry :: "summary_entry \<Rightarrow> bool" where
  "sync_entry e = (e = LastOrderDateSynced \<or> e = LastEstimateDateSynced)"

text \<open>
  The snapshot of the customer's estimates or invoices holds a document with a date, and
  the date-sync entries the external store calls for: none without a Firestore client.
\<close>

definition has_dated :: "string \<Rightarrow> (string \<times> dated_doc) list \<Rightarrow> bool" where
  "has_dated cid docs = list_ex (\<lambda>doc. truthy (d_date (snd doc))) (where_customer cid docs)"

definition store_sync_entries :: "firestore option \<Rightarrow> string \<Rightarrow> summary_entry list" where
  "store_sync_entries fso cid =
     (case fso of
        None \<Rightarrow> []
      | Some fs \<Rightarrow>
          (if has_dated cid (fs_invoices fs) then [LastOrderDateSynced] else []) @
          (if has_dated cid (fs_estimates fs) then [LastEstimateDateSynced] else []))"

lemmas string_eval =
  lower_trim_def trim_def toLowerCase_def toLowerCase_char_def is_space_def
  phone_key_def slice_last10_def strip_non_digits_def is_digit_def full_name_def
  truthy_def or_empty_def

lemmas example_eval = blank_company_def blank_customer_def invoice_customer_of_def

section \<open>Match scores\<close>

text \<open>\<open>str_includes\<close> is the substring test.\<close>

lemma starts_with_iff: "starts_with s t \<longleftrightarrow> (\<exists>q. s = t @ q)"
  by (induction s t rule: starts_with.induct) auto

lemma str_includes_iff: "str_includes s t \<longleftrightarrow> (\<exists>p q. s = p @ t @ q)"
proof (induction s)
  case Nil
  then show ?case by simp
next
  case (Cons a s)
  have "(\<exists>p q. a # s = p @ t @ q) \<longleftrightarrow> (\<exists>q. a # s = t @ q) \<or> (\<exists>p q. s = p @ t @ q)"
  proof
    assume "\<exists>p q. a # s = p @ t @ q"
    then obtain p q where e: "a # s = p @ t @ q" by blast
    show "(\<exists>q. a # s = t @ q) \<or> (\<exists>p q. s = p @ t @ q)"
    proof (cases p)
      case Nil
      with e show ?thesis by auto
    next
      case (Cons b p')
      with e have "s = p' @ t @ q" by simp
      then show ?thesis by blast
    qed
  next
    assume "(\<exists>q. a # s = t @ q) \<or> (\<exists>p q. s = p @ t @ q)"
    then show "\<exists>p q. a # s = p @ t @ q"
    proof
      assume "\<exists>q. a # s = t @ q"
      then obtain q where "a # s = [] @ t @ q" by auto
      then show ?thesis by blast
    next
      assume "\<exists>p q. s = p @ t @ q"
      then obtain p q where "a # s = (a # p) @ t @ q" by auto
      then show ?thesis by blast
    qed
  qed
  with Cons show ?case by (simp add: starts_with_iff)
qed

lemma starts_with_refl: "starts_with s s"
  by (induction s) simp_all

lemma str_includes_refl: "str_includes s s"
  by (cases s) (simp_all add: starts_with_refl)

lemma phone_key_Nil: "phone_key [] = []"
  by (simp add: phone_key_def slice_last10_def strip_non_digits_def)

lemma bulk_phone_match_spec: "bulk_phone_match ic c = spec_phone ic c"
  by (auto simp: bulk_phone_match_def spec_phone_def Let_def truthy_def or_empty_def
      phone_key_Nil split: option.splits)

lemma spec_exact_substring: "spec_exact ic c \<Longrightarrow> spec_substring ic c"
  by (auto simp: spec_exact_def spec_substring_def str_includes_refl)

lemma bulk_name_score_cases:
  "bulk_name_score ic c =
     (if spec_exact ic c then 100 else if spec_substring ic c then 80
      else if spec_contact ic c then 70 else if spec_sole ic c then 75 else 0)"
  unfolding bulk_name_score_def spec_exact_def spec_substring_def spec_contact_def
    spec_sole_def Let_def
  by auto

text \<open>
  C1 (as stated, refuted). The claim says the score is the maximum over the applicable
  rules. For a customer named Bob with no company name and a company whose name and contact
  name are both Bob, the 70 rule and the 75 rule both apply; the chain of
  \<^verbatim>\<open>else if\<close> stops at the first and the route scores 70, not 75.
\<close>

theorem bulk_score_max_counterexample:
  "bulk_score (invoice_customer_of (''k1'', blank_customer\<lparr>k_firstName := Some ''Bob''\<rparr>))
     (blank_company ''c1''\<lparr>c_name := Some ''Bob'', c_contact_name := Some ''Bob''\<rparr>) = 70 \<and>
   spec_max_score (invoice_customer_of (''k1'', blank_customer\<lparr>k_firstName := Some ''Bob''\<rparr>))
     (blank_company ''c1''\<lparr>c_name := Some ''Bob'', c_contact_name := Some ''Bob''\<rparr>) = 75"
  by (simp add: bulk_score_def bulk_name_score_def bulk_phone_match_def spec_max_score_def
      spec_exact_def spec_substring_def spec_contact_def spec_sole_def spec_phone_def
      string_eval example_eval)

text \<open>
  C1 (amended). In bulk reconciliation the name rules are a first-match chain in the order
  100, 80, 70, 75, and a phone match then raises the score to at least 90. The result is the
  maximum over the applicable rules except in one case: when the 70 rule and the 75 rule
  both apply and neither the substring rule (hence nor the exact rule) nor the phone rule
  does, the score is 70.
\<close>

theorem bulk_score_chain_vs_max:
  "bulk_score ic c =
     (if spec_contact ic c \<and> spec_sole ic c \<and> \<not> spec_substring ic c \<and> \<not> spec_phone ic c
      then 70 else spec_max_score ic c)"
  using spec_exact_substring [of ic c]
  by (auto simp: bulk_score_def bulk_name_score_cases bulk_phone_match_spec
      spec_max_score_def Let_def)

text \<open>
  The amended statement at Acme against Acme Fencing LLC with agreeing phones: the substring
  rule gives 80, the phone rule raises it to 90, and 90 is the maximum.
\<close>

theorem bulk_score_chain_vs_max_witness:
  "bulk_score
     (invoice_customer_of (''k1'', blank_customer\<lparr>k_companyName := Some ''Acme Fencing LLC'',
        k_phone := Some ''(302) 555-1212''\<rparr>))
     (blank_company ''c1''\<lparr>c_name := Some ''Acme'', c_phone := Some ''302-555-1212''\<rparr>) = 90 \<and>
   spec_max_score
     (invoice_customer_of (''k1'', blank_customer\<lparr>k_companyName := Some ''Acme Fencing LLC'',
        k_phone := Some ''(302) 555-1212''\<rparr>))
     (blank_company ''c1''\<lparr>c_name := Some ''Acme'', c_phone := Some ''302-555-1212''\<rparr>) = 90"
  using bulk_score_chain_vs_max
    [of "invoice_customer_of (''k1'', blank_customer\<lparr>k_companyName := Some ''Acme Fencing LLC'',
           k_phone := Some ''(302) 555-1212''\<rparr>)"
        "blank_company ''c1''\<lparr>c_name := Some ''Acme'', c_phone := Some ''302-555-1212''\<rparr>"]
  by (simp add: spec_max_score_def spec_exact_def spec_substring_def spec_contact_def
      spec_sole_def spec_phone_def string_eval example_eval)

text \<open>
  The phone rule of the bulk route: a phone match gives at least 90 and leaves an exact
  name match at 100.
\<close>

lemma bulk_score_phone_floor:
  "bulk_phone_match ic c \<Longrightarrow>
     90 \<le> bulk_score ic c \<and> (spec_exact ic c \<longrightarrow> bulk_score ic c = 100)"
  by (simp add: bulk_score_def bulk_name_score_cases)

text \<open>
  C2 (the code departs from the claim). In \<^verbatim>\<open>GET /integrations/match/:companyId\<close>
  the phone rule is the last \<^verbatim>\<open>else if\<close> of the chain, so it is not tried once a name
  rule has fired. Company Acme with phone 302-555-1212 against customer Acme Fencing LLC
  with phone (302) 555-1212: the last ten digits agree, and the route answers with
  \<^verbatim>\<open>matchScore\<close> 80, below 90.
\<close>

theorem match_company_phone_below_90:
  "match_company
     (Some \<lparr>fs_customers =
               [(''k1'', blank_customer\<lparr>k_companyName := Some ''Acme Fencing LLC'',
                   k_phone := Some ''(302) 555-1212''\<rparr>)],
            fs_estimates = [], fs_invoices = []\<rparr>)
     [blank_company ''c1''\<lparr>c_name := Some ''Acme'', c_phone := Some ''302-555-1212''\<rparr>] ''c1''
   = Json (Matched 80 False ''k1'') \<and>
   phone_key ''(302) 555-1212'' = ''3025551212'' \<and>
   phone_key ''302-555-1212'' = ''3025551212''"
  by (simp add: match_company_def select_single_def linked_customer_def match_step_def
      match_score_def string_eval example_eval)

section \<open>Order of the bulk reconciliation result\<close>

lemma set_insert_by: "set (insert_by cmp x xs) = insert x (set xs)"
  by (induction xs) auto

lemma set_sort_by: "set (sort_by cmp xs) = set xs"
  by (induction xs) (simp_all add: sort_by_def set_insert_by)

lemma length_insert_by: "length (insert_by cmp x xs) = Suc (length xs)"
  by (induction xs) auto

lemma length_sort_by: "length (sort_by cmp xs) = length xs"
  by (induction xs) (simp_all add: sort_by_def length_insert_by)

lemma compare_rows_le: "compare_rows a b \<le> 0 \<longleftrightarrow> row_before a b"
  by (auto simp: compare_rows_def row_before_def Let_def)

lemma row_before_total: "\<not> row_before a b \<Longrightarrow> row_before b a"
  by (auto simp: row_before_def)

lemma row_before_trans: "row_before a b \<Longrightarrow> row_before b c \<Longrightarrow> row_before a c"
  by (auto simp: row_before_def)

lemma sorted_insert_rows:
  "sorted_wrt row_before xs \<Longrightarrow> sorted_wrt row_before (insert_by compare_rows x xs)"
proof (induction xs)
  case Nil
  then show ?case by simp
next
  case (Cons y ys)
  show ?case
  proof (cases "compare_rows x y \<le> 0")
    case True
    then have xy: "row_before x y" by (simp add: compare_rows_le)
    have "\<forall>z\<in>set ys. row_before x z"
      using Cons.prems xy by (auto intro: row_before_trans)
    with True xy Cons.prems show ?thesis by simp
  next
    case False
    then have "row_before y x"
      by (simp add: compare_rows_le row_before_total)
    with False Cons show ?thesis
      by (auto simp: set_insert_by)
  qed
qed

lemma sorted_sort_rows: "sorted_wrt row_before (sort_by compare_rows xs)"
  by (induction xs) (simp_all add: sort_by_def sorted_insert_rows)

lemma bulk_row_status:
  "r_status (bulk_row companies ic) \<in> {''suggested'', ''unmatched'', ''linked''}"
  by (simp add: bulk_row_def split: option.split prod.split)

lemma bulk_results_status:
  "r \<in> set (bulk_results companies docs) \<Longrightarrow>
     r_status r \<in> {''suggested'', ''unmatched'', ''linked''}"
  using bulk_row_status by (auto simp: bulk_results_def set_sort_by)

lemma order_of_values:
  "order_of ''suggested'' = 0" "order_of ''unmatched'' = 1" "order_of ''linked'' = 2"
  by (simp_all add: order_of_def)

lemma partition_by_status:
  "sorted_wrt row_before xs \<Longrightarrow>
   (\<And>r. r \<in> set xs \<Longrightarrow> r_status r \<in> {''suggested'', ''unmatched'', ''linked''}) \<Longrightarrow>
   xs = filter (has_status ''suggested'') xs @ filter (has_status ''unmatched'') xs @
        filter (has_status ''linked'') xs"
proof (induction xs)
  case Nil
  then show ?case by simp
next
  case (Cons x xs)
  have IH: "xs = filter (has_status ''suggested'') xs @ filter (has_status ''unmatched'') xs @
        filter (has_status ''linked'') xs"
    using Cons by simp
  have after: "\<And>y. y \<in> set xs \<Longrightarrow> order_of (r_status x) \<le> order_of (r_status y)"
    using Cons.prems(1) by (auto simp: row_before_def)
  have rest: "\<And>y. y \<in> set xs \<Longrightarrow> r_status y \<in> {''suggested'', ''unmatched'', ''linked''}"
    using Cons.prems(2) by simp
  have "r_status x \<in> {''suggested'', ''unmatched'', ''linked''}"
    using Cons.prems(2) by simp
  then consider (s) "r_status x = ''suggested''" | (u) "r_status x = ''unmatched''"
    | (l) "r_status x = ''linked''" by auto
  then show ?case
  proof cases
    case s
    then have hx: "has_status ''suggested'' x" "\<not> has_status ''unmatched'' x"
      "\<not> has_status ''linked'' x"
      by (simp_all add: has_status_def)
    show ?thesis by (simp add: hx, rule IH)
  next
    case u
    then have hx: "\<not> has_status ''suggested'' x" "has_status ''unmatched'' x"
      "\<not> has_status ''linked'' x"
      by (simp_all add: has_status_def)
    have "\<And>y. y \<in> set xs \<Longrightarrow> r_status y \<noteq> ''suggested''"
      using after u by (fastforce simp: order_of_values)
    then have e1: "filter (has_status ''suggested'') xs = []"
      by (simp add: filter_empty_conv has_status_def)
    note IH' = IH [unfolded e1 append_Nil]
    show ?thesis by (simp add: hx e1, rule IH')
  next
    case l
    then have hx: "\<not> has_status ''suggested'' x" "\<not> has_status ''unmatched'' x"
      "has_status ''linked'' x"
      by (simp_all add: has_status_def)
    have "\<And>y. y \<in> set xs \<Longrightarrow> r_status y \<noteq> ''suggested'' \<and> r_status y \<noteq> ''unmatched''"
      using after l by (fastforce simp: order_of_values)
    then have e1: "filter (has_status ''suggested'') xs = []"
      and e2: "filter (has_status ''unmatched'') xs = []"
      by (simp_all add: filter_empty_conv has_status_def)
    note IH' = IH [unfolded e1 e2 append_Nil]
    show ?thesis by (simp add: hx e1 e2, rule IH')
  qed
qed

lemma group_descending:
  "sorted_wrt row_before xs \<Longrightarrow> score_descending (filter (has_status st) xs)"
proof -
  assume "sorted_wrt row_before xs"
  then have "sorted_wrt row_before (filter (has_status st) xs)"
    by (rule sorted_wrt_filter)
  then show ?thesis
    unfolding score_descending_def
    by (rule sorted_wrt_mono_rel [rotated]) (auto simp: has_status_def row_before_def)
qed

text \<open>The sort neither drops nor adds a row.\<close>

lemma mset_insert_by: "mset (insert_by cmp x xs) = add_mset x (mset xs)"
  by (induction xs) simp_all

lemma mset_sort_by: "mset (sort_by cmp xs) = mset xs"
  by (induction xs) (simp_all add: sort_by_def mset_insert_by)

lemma mset_bulk_results:
  "mset (bulk_results companies docs) =
     mset (map (bulk_row companies) (map invoice_customer_of docs))"
  by (simp add: bulk_results_def mset_sort_by)

text \<open>
  C4. The result list of bulk reconciliation holds exactly the rows computed for the
  customers of the input, one for each, arranged as follows: its suggested rows, then its
  unmatched rows, then its linked rows, and within each of the three groups the scores do
  not increase.
\<close>

theorem bulk_results_ordered:
  "mset (bulk_results companies docs) =
     mset (map (bulk_row companies) (map invoice_customer_of docs)) \<and>
   bulk_results companies docs =
     filter (has_status ''suggested'') (bulk_results companies docs) @
     filter (has_status ''unmatched'') (bulk_results companies docs) @
     filter (has_status ''linked'') (bulk_results companies docs) \<and>
   score_descending (filter (has_status ''suggested'') (bulk_results companies docs)) \<and>
   score_descending (filter (has_status ''unmatched'') (bulk_results companies docs)) \<and>
   score_descending (filter (has_status ''linked'') (bulk_results companies docs))"
proof -
  note m = mset_bulk_results [of companies docs]
  have s: "sorted_wrt row_before (bulk_results companies docs)"
    by (simp add: bulk_results_def sorted_sort_rows)
  have p: "bulk_results companies docs =
     filter (has_status ''suggested'') (bulk_results companies docs) @
     filter (has_status ''unmatched'') (bulk_results companies docs) @
     filter (has_status ''linked'') (bulk_results companies docs)"
    by (rule partition_by_status [OF s]) (rule bulk_results_status)
  show ?thesis
    using m p group_descending [OF s] by blast
qed

section \<open>Linked companies in bulk reconciliation\<close>

lemma find_SomeD: "find P xs = Some x \<Longrightarrow> x \<in> set xs \<and> P x"
  by (induction xs) (auto split: if_splits)

lemma bulk_step_linked: "truthy (c_invoice_customer_id c) \<Longrightarrow> bulk_step ic c acc = acc"
  by (cases acc) (simp add: bulk_step_def)

lemma fold_bulk_step_ref:
  "unlinked_ref companies (fst acc) \<Longrightarrow> set cs \<subseteq> set companies \<Longrightarrow>
     unlinked_ref companies (fst (fold (bulk_step ic) cs acc))"
proof (induction cs arbitrary: acc)
  case Nil
  then show ?case by simp
next
  case (Cons c cs)
  have "unlinked_ref companies (fst (bulk_step ic c acc))"
    using Cons.prems
    by (cases acc) (auto simp: bulk_step_def unlinked_ref_def Let_def)
  with Cons show ?case by simp
qed

lemma bulk_row_linked:
  "find (\<lambda>c. c_invoice_customer_id c = Some (ic_id ic)) companies = Some lc \<Longrightarrow>
     bulk_row companies ic =
       \<lparr>r_invoiceCustomer = ic, r_match = Some \<lparr>m_id = c_id lc, m_name = c_name lc\<rparr>,
        r_score = 100, r_status = ''linked''\<rparr>"
  by (simp add: bulk_row_def)

lemma bulk_row_unlinked:
  assumes "find (\<lambda>c. c_invoice_customer_id c = Some (ic_id ic)) companies = None"
  shows "r_invoiceCustomer (bulk_row companies ic) = ic"
    and "r_status (bulk_row companies ic) \<noteq> ''linked''"
    and "unlinked_ref companies (r_match (bulk_row companies ic))"
proof -
  obtain bm bs where f: "fold (bulk_step ic) companies (None, 0) = (bm, bs)"
    by (cases "fold (bulk_step ic) companies (None, 0)")
  have "unlinked_ref companies (fst (fold (bulk_step ic) companies (None, 0)))"
    by (rule fold_bulk_step_ref) (simp_all add: unlinked_ref_def)
  then have u: "unlinked_ref companies bm" using f by simp
  show "r_invoiceCustomer (bulk_row companies ic) = ic"
    using assms f by (simp add: bulk_row_def)
  show "r_status (bulk_row companies ic) \<noteq> ''linked''"
    using assms f by (simp add: bulk_row_def)
  show "unlinked_ref companies (r_match (bulk_row companies ic))"
    using assms f u by (simp add: bulk_row_def)
qed

lemma bulk_row_customer: "r_invoiceCustomer (bulk_row companies ic) = ic"
  by (simp add: bulk_row_def split: option.split prod.split)

lemma same_id_same_company:
  "distinct (map c_id companies) \<Longrightarrow> a \<in> set companies \<Longrightarrow> b \<in> set companies \<Longrightarrow>
     c_id a = c_id b \<Longrightarrow> a = b"
  by (meson distinct_map inj_onD)

lemma unlinked_ref_not_linked:
  assumes d: "distinct (map c_id companies)"
    and u: "unlinked_ref companies bm" and c: "c \<in> set companies"
    and t: "truthy (c_invoice_customer_id c)" and m: "bm = Some m"
  shows "m_id m \<noteq> c_id c"
proof
  assume e: "m_id m = c_id c"
  from u m obtain c' where c': "c' \<in> set companies" "\<not> truthy (c_invoice_customer_id c')"
    "m = \<lparr>m_id = c_id c', m_name = c_name c'\<rparr>"
    by (auto simp: unlinked_ref_def)
  then have "c_id c' = c_id c" using e by simp
  then have "c' = c" using d c c'(1) by (metis same_id_same_company)
  with c'(2) t show False by simp
qed

lemma bulk_results_rows:
  "r \<in> set (bulk_results companies docs) \<Longrightarrow>
     \<exists>doc\<in>set docs. r = bulk_row companies (invoice_customer_of doc)"
  by (auto simp: bulk_results_def set_sort_by)

lemma ic_id_of_doc: "ic_id (invoice_customer_of doc) = fst doc"
  by (cases doc) (simp add: invoice_customer_of_def)

text \<open>
  C5. With company ids unique: in every result row that is not linked, the candidate is
  never a company whose \<^verbatim>\<open>invoice_customer_id\<close> is set; every row whose customer id is
  the \<^verbatim>\<open>invoice_customer_id\<close> of some company has score 100 and status linked, whatever
  its names and phones are; and every customer of the input has a row.
\<close>

theorem linked_companies_never_candidates:
  assumes "distinct (map c_id companies)"
  shows "(\<forall>r\<in>set (bulk_results companies docs).
            (r_status r \<noteq> ''linked'' \<longrightarrow>
               (\<forall>c\<in>set companies. \<forall>m. truthy (c_invoice_customer_id c) \<and> r_match r = Some m
                   \<longrightarrow> m_id m \<noteq> c_id c)) \<and>
            ((\<exists>c\<in>set companies. c_invoice_customer_id c = Some (ic_id (r_invoiceCustomer r)))
               \<longrightarrow> r_score r = 100 \<and> r_status r = ''linked'')) \<and>
         (\<forall>doc\<in>set docs. \<exists>r\<in>set (bulk_results companies docs).
            r_invoiceCustomer r = invoice_customer_of doc)"
proof (intro conjI ballI)
  fix r assume r: "r \<in> set (bulk_results companies docs)"
  then obtain doc where doc: "doc \<in> set docs"
    and rr: "r = bulk_row companies (invoice_customer_of doc)"
    using bulk_results_rows by blast
  let ?ic = "invoice_customer_of doc"
  let ?f = "find (\<lambda>c. c_invoice_customer_id c = Some (ic_id ?ic)) companies"
  show "r_status r \<noteq> ''linked'' \<longrightarrow>
          (\<forall>c\<in>set companies. \<forall>m. truthy (c_invoice_customer_id c) \<and> r_match r = Some m
              \<longrightarrow> m_id m \<noteq> c_id c)"
  proof (cases ?f)
    case None
    then have "unlinked_ref companies (r_match r)"
      unfolding rr by (rule bulk_row_unlinked(3))
    then show ?thesis
      using unlinked_ref_not_linked [OF assms] by blast
  next
    case (Some lc)
    then show ?thesis by (simp add: rr bulk_row_linked)
  qed
  show "(\<exists>c\<in>set companies. c_invoice_customer_id c = Some (ic_id (r_invoiceCustomer r)))
          \<longrightarrow> r_score r = 100 \<and> r_status r = ''linked''"
  proof (cases ?f)
    case None
    then have "\<forall>c\<in>set companies. c_invoice_customer_id c \<noteq> Some (ic_id ?ic)"
      by (simp add: find_None_iff)
    then show ?thesis by (simp add: rr bulk_row_customer)
  next
    case (Some lc)
    then show ?thesis by (simp add: rr bulk_row_linked)
  qed
next
  fix doc assume "doc \<in> set docs"
  then have "bulk_row companies (invoice_customer_of doc) \<in> set (bulk_results companies docs)"
    by (simp add: bulk_results_def set_sort_by)
  then show "\<exists>r\<in>set (bulk_results companies docs). r_invoiceCustomer r = invoice_customer_of doc"
    using bulk_row_customer by blast
qed

text \<open>
  At two companies, the first linked to customer k1: the row of k1 is linked with score 100.
\<close>

theorem linked_companies_never_candidates_witness:
  "distinct (map c_id [blank_company ''c1''\<lparr>c_invoice_customer_id := Some ''k1''\<rparr>,
                       blank_company ''c2''\<lparr>c_name := Some ''Acme''\<rparr>]) \<and>
   (\<exists>r\<in>set (bulk_results
              [blank_company ''c1''\<lparr>c_invoice_customer_id := Some ''k1''\<rparr>,
               blank_company ''c2''\<lparr>c_name := Some ''Acme''\<rparr>]
              [(''k1'', blank_customer\<lparr>k_companyName := Some ''Acme''\<rparr>)]).
      r_invoiceCustomer r = invoice_customer_of (''k1'', blank_customer\<lparr>k_companyName := Some ''Acme''\<rparr>) \<and>
      r_score r = 100 \<and> r_status r = ''linked'')"
proof -
  let ?cs = "[blank_company ''c1''\<lparr>c_invoice_customer_id := Some ''k1''\<rparr>,
              blank_company ''c2''\<lparr>c_name := Some ''Acme''\<rparr>]"
  let ?doc = "(''k1'', blank_customer\<lparr>k_companyName := Some ''Acme''\<rparr>)"
  have d: "distinct (map c_id ?cs)"
    by (simp add: blank_company_def)
  have l: "\<exists>c\<in>set ?cs. c_invoice_customer_id c = Some (ic_id (invoice_customer_of ?doc))"
    by (simp add: blank_company_def invoice_customer_of_def)
  from linked_companies_never_candidates [OF d, of "[?doc]"] l d
  show ?thesis
    by (metis list.set_intros(1))
qed

text \<open>
  C10. A company whose \<^verbatim>\<open>invoice_customer_id\<close> is set is skipped by the scoring loop
  for every customer; if no customer of the input has that id, no row of the result names
  the company, neither as the linked company nor as a candidate (company ids unique).
\<close>

theorem dangling_link_company_absent:
  assumes d: "distinct (map c_id companies)"
    and c: "c \<in> set companies"
    and t: "truthy (c_invoice_customer_id c)"
    and a: "\<forall>doc\<in>set docs. c_invoice_customer_id c \<noteq> Some (fst doc)"
  shows "(\<forall>ic acc. bulk_step ic c acc = acc) \<and>
         (\<forall>r\<in>set (bulk_results companies docs). \<forall>m. r_match r = Some m \<longrightarrow> m_id m \<noteq> c_id c)"
proof (intro conjI ballI allI impI)
  fix ic acc show "bulk_step ic c acc = acc" using t by (rule bulk_step_linked)
next
  fix r m assume r: "r \<in> set (bulk_results companies docs)" and m: "r_match r = Some m"
  then obtain doc where doc: "doc \<in> set docs"
    and rr: "r = bulk_row companies (invoice_customer_of doc)"
    using bulk_results_rows by blast
  let ?ic = "invoice_customer_of doc"
  let ?f = "find (\<lambda>c. c_invoice_customer_id c = Some (ic_id ?ic)) companies"
  show "m_id m \<noteq> c_id c"
  proof (cases ?f)
    case None
    then have "unlinked_ref companies (r_match r)"
      unfolding rr by (rule bulk_row_unlinked(3))
    then show ?thesis
      using unlinked_ref_not_linked [OF d _ c t m] by blast
  next
    case (Some lc)
    then have lc: "lc \<in> set companies" "c_invoice_customer_id lc = Some (fst doc)"
      using find_SomeD [OF Some] by (simp_all add: ic_id_of_doc)
    have mm: "m = \<lparr>m_id = c_id lc, m_name = c_name lc\<rparr>"
      using m Some by (simp add: rr bulk_row_linked)
    show ?thesis
    proof
      assume "m_id m = c_id c"
      then have "c_id lc = c_id c" using mm by simp
      then have "lc = c" using d lc(1) c by (metis same_id_same_company)
      with lc(2) a doc show False by auto
    qed
  qed
qed

text \<open>
  At one company linked to a customer id that is not in the input: no row names it.
\<close>

theorem dangling_link_company_absent_witness:
  "distinct (map c_id [blank_company ''c1''\<lparr>c_name := Some ''Acme'', c_invoice_customer_id := Some ''gone''\<rparr>]) \<and>
   truthy (c_invoice_customer_id (blank_company ''c1''\<lparr>c_name := Some ''Acme'', c_invoice_customer_id := Some ''gone''\<rparr>)) \<and>
   \<not> (\<exists>r\<in>set (bulk_results
              [blank_company ''c1''\<lparr>c_name := Some ''Acme'', c_invoice_customer_id := Some ''gone''\<rparr>]
              [(''k1'', blank_customer\<lparr>k_companyName := Some ''Acme''\<rparr>)]).
        \<exists>m. r_match r = Some m \<and> m_id m = ''c1'')"
proof -
  let ?c = "blank_company ''c1''\<lparr>c_name := Some ''Acme'', c_invoice_customer_id := Some ''gone''\<rparr>"
  let ?docs = "[(''k1'', blank_customer\<lparr>k_companyName := Some ''Acme''\<rparr>)]"
  have d: "distinct (map c_id [?c])" by simp
  have c: "?c \<in> set [?c]" by simp
  have t: "truthy (c_invoice_customer_id ?c)" by (simp add: truthy_def)
  have a: "\<forall>doc\<in>set ?docs. c_invoice_customer_id ?c \<noteq> Some (fst doc)" by simp
  have i: "c_id ?c = ''c1''" by (simp add: blank_company_def)
  from dangling_link_company_absent [OF d c t a] d t i
  show ?thesis by metis
qed

section \<open>The link route\<close>

lemma select_single_filter:
  "select_single rows cid = Inr c \<longleftrightarrow> filter (\<lambda>x. c_id x = cid) rows = [c]"
  by (simp add: select_single_def split: list.split)

lemma select_single_id: "select_single rows cid = Inr c \<Longrightarrow> c_id c = cid"
proof -
  assume "select_single rows cid = Inr c"
  then have "c \<in> set (filter (\<lambda>x. c_id x = cid) rows)"
    by (simp add: select_single_filter)
  then show ?thesis by simp
qed

lemma apply_updates_id: "c_id (apply_updates u c) = c_id c"
  by (simp add: apply_updates_def)

lemma filter_update_rows:
  "filter (\<lambda>x. c_id x = cid) (update_rows u cid rows) =
     map (apply_updates u) (filter (\<lambda>x. c_id x = cid) rows)"
  by (induction rows) (simp_all add: update_rows_def apply_updates_id)

lemma select_single_update_rows:
  "select_single rows cid = Inr c \<Longrightarrow>
     select_single (update_rows u cid rows) cid = Inr (apply_updates u c)"
  by (simp add: select_single_filter filter_update_rows)

lemma link_company_ok:
  assumes "truthy companyId" "truthy invoiceCustomerId"
    and "select_single rows (or_empty companyId) = Inr company"
  shows "link_company fso rows now companyId invoiceCustomerId =
     (Json (LinkedSuccessfully
        (auto_updated (link_updates fso company (or_empty invoiceCustomerId) now) company)),
      update_rows (link_updates fso company (or_empty invoiceCustomerId) now)
        (or_empty companyId) rows)"
  using assms by (simp add: link_company_def Let_def)

lemma link_company_okD:
  assumes "link_company fso rows now companyId invoiceCustomerId = (Json body, rows1)"
  shows "truthy companyId \<and> truthy invoiceCustomerId \<and>
         (\<exists>company. select_single rows (or_empty companyId) = Inr company)"
  using assms by (auto simp: link_company_def Let_def split: if_splits sum.splits)

lemma assigned_None: "assigned None x = x"
  by (simp add: assigned_def)

lemma apply_initial_updates:
  "apply_updates (initial_updates k now) c =
     c\<lparr>c_invoice_customer_id := Some k, c_updated_at := now\<rparr>"
  by (simp add: apply_updates_def initial_updates_def assigned_None)

lemma auto_updated_initial: "auto_updated (initial_updates k now) c = []"
  by (simp add: auto_updated_def initial_updates_def truthy_def email_truthy_def)

text \<open>
  C3 (amended). Without a Firestore client the match route and the bulk route answer 503
  "Invoice integration not configured" before anything else. The link route has no such
  check: its enrichment is wrapped in \<^verbatim>\<open>if (firestore)\<close>, and for a well-formed
  request on an existing company it writes \<^verbatim>\<open>invoice_customer_id\<close> and
  \<^verbatim>\<open>updated_at\<close> on the company's row, changes nothing else, and answers "Linked
  successfully" with an empty \<^verbatim>\<open>autoUpdated\<close>.
\<close>

theorem unconfigured_integration:
  "match_company None rows cid = Failure 503 ''Invoice integration not configured'' \<and>
   bulk_match None rows = Failure 503 ''Invoice integration not configured'' \<and>
   (truthy companyId \<and> truthy invoiceCustomerId \<and>
    select_single rows (or_empty companyId) = Inr company \<longrightarrow>
      link_company None rows now companyId invoiceCustomerId =
        (Json (LinkedSuccessfully []),
         map (\<lambda>c. if c_id c = or_empty companyId
                   then c\<lparr>c_invoice_customer_id := Some (or_empty invoiceCustomerId),
                          c_updated_at := now\<rparr>
                   else c) rows))"
  by (simp add: match_company_def bulk_match_def link_company_ok link_updates_def
      auto_updated_initial update_rows_def apply_initial_updates)

text \<open>
  C3 (as stated, refuted). With no Firestore client, linking company c1 to customer k1
  succeeds and writes \<^verbatim>\<open>invoice_customer_id\<close>.
\<close>

theorem link_unconfigured_counterexample:
  "link_company None [blank_company ''c1''] ''2024-03-05T12:00:00.000Z'' (Some ''c1'') (Some ''k1'') =
     (Json (LinkedSuccessfully []),
      [blank_company ''c1''\<lparr>c_invoice_customer_id := Some ''k1'',
                             c_updated_at := ''2024-03-05T12:00:00.000Z''\<rparr>])"
  by (simp add: link_company_def select_single_def link_updates_def initial_updates_def
      auto_updated_def update_rows_def apply_updates_def assigned_def truthy_def or_empty_def
      email_truthy_def blank_company_def)

text \<open>
  At a table of two companies: the link writes the id on the second and leaves the first.
\<close>

theorem unconfigured_integration_witness:
  "truthy (Some ''c2'') \<and> truthy (Some ''k7'') \<and>
   select_single [blank_company ''c1'', blank_company ''c2''\<lparr>c_name := Some ''Acme''\<rparr>] ''c2''
     = Inr (blank_company ''c2''\<lparr>c_name := Some ''Acme''\<rparr>) \<and>
   link_company None [blank_company ''c1'', blank_company ''c2''\<lparr>c_name := Some ''Acme''\<rparr>]
       ''2024-03-05T12:00:00.000Z'' (Some ''c2'') (Some ''k7'') =
     (Json (LinkedSuccessfully []),
      [blank_company ''c1'',
       blank_company ''c2''\<lparr>c_name := Some ''Acme'', c_invoice_customer_id := Some ''k7'',
                             c_updated_at := ''2024-03-05T12:00:00.000Z''\<rparr>]) \<and>
   match_company None [blank_company ''c1''] ''c1'' =
     Failure 503 ''Invoice integration not configured'' \<and>
   bulk_match None [blank_company ''c1''] = Failure 503 ''Invoice integration not configured''"
proof -
  let ?rows = "[blank_company ''c1'', blank_company ''c2''\<lparr>c_name := Some ''Acme''\<rparr>]"
  have t: "truthy (Some ''c2'')" "truthy (Some ''k7'')"
    by (simp_all add: truthy_def)
  have s: "select_single ?rows (or_empty (Some ''c2'')) = Inr (blank_company ''c2''\<lparr>c_name := Some ''Acme''\<rparr>)"
    by (simp add: select_single_def or_empty_def blank_company_def)
  have i: "c_id (blank_company ''c1'') = ''c1''" "c_id (blank_company ''c2''\<lparr>c_name := Some ''Acme''\<rparr>) = ''c2''"
    by (simp_all add: blank_company_def)
  from unconfigured_integration [of "[blank_company ''c1'']" "''c1''"]
    unconfigured_integration [of ?rows "''c2''" "Some ''c2''" "Some ''k7''" "blank_company ''c2''\<lparr>c_name := Some ''Acme''\<rparr>" "''2024-03-05T12:00:00.000Z''"]
    t s i
  show ?thesis by (simp add: or_empty_def)
qed

subsection \<open>The fields of the update\<close>

lemma sync_dates_frame:
  "u_invoice_customer_id (sync_dates fs c k u) = u_invoice_customer_id u"
  "u_updated_at (sync_dates fs c k u) = u_updated_at u"
  "u_phone (sync_dates fs c k u) = u_phone u"
  "u_email (sync_dates fs c k u) = u_email u"
  "u_contact_name (sync_dates fs c k u) = u_contact_name u"
  "u_address (sync_dates fs c k u) = u_address u"
  "u_city (sync_dates fs c k u) = u_city u"
  "u_state (sync_dates fs c k u) = u_state u"
  "u_zip (sync_dates fs c k u) = u_zip u"
  by (simp_all add: sync_dates_def Let_def)

lemma sync_dates_fields:
  "u_last_estimate_date (sync_dates fs c k u) =
     (if truthy (latest_date (where_customer k (fs_estimates fs)))
      then latest_date (where_customer k (fs_estimates fs)) else u_last_estimate_date u)"
  "u_last_order_date (sync_dates fs c k u) =
     (if truthy (latest_date (where_customer k (fs_invoices fs)))
      then latest_date (where_customer k (fs_invoices fs)) else u_last_order_date u)"
  "u_type (sync_dates fs c k u) =
     (if where_customer k (fs_invoices fs) \<noteq> [] \<and> c_type c \<noteq> Some ''Customer''
      then Some ''Customer'' else u_type u)"
  by (simp_all add: sync_dates_def Let_def)

lemma enrich_address_fields:
  "u_address (enrich_address c a u) = (if truthy (a_street a) then a_street a else u_address u)"
  "u_city (enrich_address c a u) =
     (if truthy (a_city a) \<and> \<not> truthy (c_city c) then a_city a else u_city u)"
  "u_state (enrich_address c a u) =
     (if truthy (a_state a) \<and> \<not> truthy (c_state c) then a_state a else u_state u)"
  "u_zip (enrich_address c a u) =
     (if truthy (a_zip a) \<and> \<not> truthy (c_zip c) then a_zip a else u_zip u)"
  "u_phone (enrich_address c a u) = u_phone u"
  "u_email (enrich_address c a u) = u_email u"
  "u_contact_name (enrich_address c a u) = u_contact_name u"
  "u_invoice_customer_id (enrich_address c a u) = u_invoice_customer_id u"
  "u_updated_at (enrich_address c a u) = u_updated_at u"
  "u_last_estimate_date (enrich_address c a u) = u_last_estimate_date u"
  "u_last_order_date (enrich_address c a u) = u_last_order_date u"
  "u_type (enrich_address c a u) = u_type u"
  by (simp_all add: enrich_address_def Let_def)

lemma truthy_None: "\<not> truthy None"
  by (simp add: truthy_def)

lemma enrich_fields:
  "u_phone (enrich c d u) =
     (if \<not> truthy (c_phone c) \<and> truthy (k_phone d) then k_phone d else u_phone u)"
  "u_email (enrich c d u) =
     (if \<not> email_truthy (c_email c) \<and> k_emailContacts d \<noteq> []
      then Some (email_or_self (hd (k_emailContacts d))) else u_email u)"
  "u_contact_name (enrich c d u) =
     (if \<not> truthy (c_contact_name c) \<and> full_name (k_firstName d) (k_lastName d) \<noteq> []
      then Some (full_name (k_firstName d) (k_lastName d)) else u_contact_name u)"
  "u_address (enrich c d u) =
     (if \<not> truthy (c_address c) \<and> truthy (address_field a_street d)
      then address_field a_street d else u_address u)"
  "u_city (enrich c d u) =
     (if \<not> truthy (c_address c) \<and> \<not> truthy (c_city c) \<and> truthy (address_field a_city d)
      then address_field a_city d else u_city u)"
  "u_state (enrich c d u) =
     (if \<not> truthy (c_address c) \<and> \<not> truthy (c_state c) \<and> truthy (address_field a_state d)
      then address_field a_state d else u_state u)"
  "u_zip (enrich c d u) =
     (if \<not> truthy (c_address c) \<and> \<not> truthy (c_zip c) \<and> truthy (address_field a_zip d)
      then address_field a_zip d else u_zip u)"
  "u_invoice_customer_id (enrich c d u) = u_invoice_customer_id u"
  "u_updated_at (enrich c d u) = u_updated_at u"
  "u_last_estimate_date (enrich c d u) = u_last_estimate_date u"
  "u_last_order_date (enrich c d u) = u_last_order_date u"
  "u_type (enrich c d u) = u_type u"
  by (simp_all add: enrich_def Let_def enrich_address_fields address_field_def truthy_None
      split: option.split list.split)

lemma initial_updates_fields:
  "u_invoice_customer_id (initial_updates k now) = k"
  "u_updated_at (initial_updates k now) = now"
  "u_phone (initial_updates k now) = None"
  "u_email (initial_updates k now) = None"
  "u_contact_name (initial_updates k now) = None"
  "u_address (initial_updates k now) = None"
  "u_city (initial_updates k now) = None"
  "u_state (initial_updates k now) = None"
  "u_zip (initial_updates k now) = None"
  "u_last_estimate_date (initial_updates k now) = None"
  "u_last_order_date (initial_updates k now) = None"
  "u_type (initial_updates k now) = None"
  by (simp_all add: initial_updates_def)

lemma link_updates_found:
  "map_of (fs_customers fs) k = Some d \<Longrightarrow>
     link_updates (Some fs) c k now = sync_dates fs c k (enrich c d (initial_updates k now))"
  by (simp add: link_updates_def)

lemma link_updates_missing:
  "map_of (fs_customers fs) k = None \<Longrightarrow>
     link_updates (Some fs) c k now = sync_dates fs c k (initial_updates k now)"
  by (simp add: link_updates_def)

lemma link_updates_unconfigured: "link_updates None c k now = initial_updates k now"
  by (simp add: link_updates_def)

lemma apply_updates_fields:
  "c_id (apply_updates u c) = c_id c"
  "c_name (apply_updates u c) = c_name c"
  "c_invoice_customer_id (apply_updates u c) = Some (u_invoice_customer_id u)"
  "c_updated_at (apply_updates u c) = u_updated_at u"
  "c_phone (apply_updates u c) = assigned (u_phone u) (c_phone c)"
  "c_email (apply_updates u c) = assigned (u_email u) (c_email c)"
  "c_contact_name (apply_updates u c) = assigned (u_contact_name u) (c_contact_name c)"
  "c_address (apply_updates u c) = assigned (u_address u) (c_address c)"
  "c_city (apply_updates u c) = assigned (u_city u) (c_city c)"
  "c_state (apply_updates u c) = assigned (u_state u) (c_state c)"
  "c_zip (apply_updates u c) = assigned (u_zip u) (c_zip c)"
  "c_last_estimate_date (apply_updates u c) =
     assigned (u_last_estimate_date u) (c_last_estimate_date c)"
  "c_last_order_date (apply_updates u c) = assigned (u_last_order_date u) (c_last_order_date c)"
  "c_type (apply_updates u c) = assigned (u_type u) (c_type c)"
  by (simp_all add: apply_updates_def)

lemma assigned_simps:
  "assigned None x = x"
  "assigned (Some v) x = Some v"
  "assigned (if b then y else z) x = (if b then assigned y x else assigned z x)"
  by (simp_all add: assigned_def)

lemma assigned_truthy: "truthy y \<Longrightarrow> assigned y x = y"
  by (cases y) (simp_all add: assigned_def truthy_def)

lemmas link_fields =
  sync_dates_frame sync_dates_fields enrich_fields initial_updates_fields apply_updates_fields

subsection \<open>Enrichment\<close>

text \<open>
  C6 (amended). When the customer document exists, the company's row after the link has:
  phone, email and contact name copied from the external record only where the company's
  own field is empty; the street address copied only where the company's address is
  empty; and city, state and zip copied only where the company's address is empty and the
  company's own city, state or zip is empty. Every field that is non-empty stays as it
  is. The claim's last part does not hold: city, state and zip sit inside the guard on
  the street address, so they are not filled when the street address is populated.
\<close>

theorem link_fills_only_guarded_fields:
  assumes "truthy companyId" "truthy invoiceCustomerId"
    and "select_single rows (or_empty companyId) = Inr company"
    and "map_of (fs_customers fs) (or_empty invoiceCustomerId) = Some custData"
  shows "\<exists>company'.
      select_single (snd (link_company (Some fs) rows now companyId invoiceCustomerId))
        (or_empty companyId) = Inr company' \<and>
      c_phone company' =
        (if \<not> truthy (c_phone company) \<and> truthy (k_phone custData)
         then k_phone custData else c_phone company) \<and>
      c_email company' =
        (if \<not> email_truthy (c_email company) \<and> k_emailContacts custData \<noteq> []
         then Some (email_or_self (hd (k_emailContacts custData))) else c_email company) \<and>
      c_contact_name company' =
        (if \<not> truthy (c_contact_name company) \<and>
            full_name (k_firstName custData) (k_lastName custData) \<noteq> []
         then Some (full_name (k_firstName custData) (k_lastName custData))
         else c_contact_name company) \<and>
      c_address company' =
        (if \<not> truthy (c_address company) \<and> truthy (address_field a_street custData)
         then address_field a_street custData else c_address company) \<and>
      c_city company' =
        (if \<not> truthy (c_address company) \<and> \<not> truthy (c_city company) \<and>
            truthy (address_field a_city custData)
         then address_field a_city custData else c_city company) \<and>
      c_state company' =
        (if \<not> truthy (c_address company) \<and> \<not> truthy (c_state company) \<and>
            truthy (address_field a_state custData)
         then address_field a_state custData else c_state company) \<and>
      c_zip company' =
        (if \<not> truthy (c_address company) \<and> \<not> truthy (c_zip company) \<and>
            truthy (address_field a_zip custData)
         then address_field a_zip custData else c_zip company)"
proof -
  let ?u = "link_updates (Some fs) company (or_empty invoiceCustomerId) now"
  have r: "snd (link_company (Some fs) rows now companyId invoiceCustomerId) =
             update_rows ?u (or_empty companyId) rows"
    using assms(1-3) by (simp add: link_company_ok)
  have s: "select_single (update_rows ?u (or_empty companyId) rows) (or_empty companyId) =
             Inr (apply_updates ?u company)"
    using assms(3) by (rule select_single_update_rows)
  have u: "?u = sync_dates fs company (or_empty invoiceCustomerId)
                  (enrich company custData (initial_updates (or_empty invoiceCustomerId) now))"
    using assms(4) by (rule link_updates_found)
  have sel: "select_single (snd (link_company (Some fs) rows now companyId invoiceCustomerId))
               (or_empty companyId) = Inr (apply_updates ?u company)"
    by (simp only: r s)
  have fields: "c_phone (apply_updates ?u company) =
        (if \<not> truthy (c_phone company) \<and> truthy (k_phone custData)
         then k_phone custData else c_phone company) \<and>
      c_email (apply_updates ?u company) =
        (if \<not> email_truthy (c_email company) \<and> k_emailContacts custData \<noteq> []
         then Some (email_or_self (hd (k_emailContacts custData))) else c_email company) \<and>
      c_contact_name (apply_updates ?u company) =
        (if \<not> truthy (c_contact_name company) \<and>
            full_name (k_firstName custData) (k_lastName custData) \<noteq> []
         then Some (full_name (k_firstName custData) (k_lastName custData))
         else c_contact_name company) \<and>
      c_address (apply_updates ?u company) =
        (if \<not> truthy (c_address company) \<and> truthy (address_field a_street custData)
         then address_field a_street custData else c_address company) \<and>
      c_city (apply_updates ?u company) =
        (if \<not> truthy (c_address company) \<and> \<not> truthy (c_city company) \<and>
            truthy (address_field a_city custData)
         then address_field a_city custData else c_city company) \<and>
      c_state (apply_updates ?u company) =
        (if \<not> truthy (c_address company) \<and> \<not> truthy (c_state company) \<and>
            truthy (address_field a_state custData)
         then address_field a_state custData else c_state company) \<and>
      c_zip (apply_updates ?u company) =
        (if \<not> truthy (c_address company) \<and> \<not> truthy (c_zip company) \<and>
            truthy (address_field a_zip custData)
         then address_field a_zip custData else c_zip company)"
    unfolding u by (simp add: link_fields assigned_simps assigned_truthy)
  from sel fields show ?thesis by blast
qed

text \<open>
  C6 (as stated, refuted). The company has street address 1 Main St and no city; the
  external address has city Dover. After the link the company's city is still empty.
\<close>

theorem link_city_counterexample:
  "link_company
     (Some \<lparr>fs_customers =
               [(''k1'', blank_customer\<lparr>k_address :=
                   Some \<lparr>a_street = Some ''9 Elm Rd'', a_city = Some ''Dover'',
                         a_state = Some ''DE'', a_zip = Some ''19901''\<rparr>\<rparr>)],
            fs_estimates = [], fs_invoices = []\<rparr>)
     [blank_company ''c1''\<lparr>c_address := Some ''1 Main St''\<rparr>]
     ''2024-03-05T12:00:00.000Z'' (Some ''c1'') (Some ''k1'') =
   (Json (LinkedSuccessfully []),
    [blank_company ''c1''\<lparr>c_address := Some ''1 Main St'', c_invoice_customer_id := Some ''k1'',
                           c_updated_at := ''2024-03-05T12:00:00.000Z''\<rparr>]) \<and>
   c_city (blank_company ''c1''\<lparr>c_address := Some ''1 Main St'',
             c_invoice_customer_id := Some ''k1'',
             c_updated_at := ''2024-03-05T12:00:00.000Z''\<rparr>) = None"
  by (simp add: link_company_def select_single_def link_updates_def initial_updates_def
      enrich_def enrich_address_def sync_dates_def where_customer_def latest_date_def
      auto_updated_def update_rows_def apply_updates_def assigned_def truthy_def or_empty_def
      email_truthy_def full_name_def blank_company_def blank_customer_def)

text \<open>
  At a company with no phone and no address: phone, street and city are filled, and the
  state, absent in the external address, stays empty.
\<close>

theorem link_fills_only_guarded_fields_witness:
  "truthy (Some ''c1'') \<and> truthy (Some ''k1'') \<and>
   select_single [blank_company ''c1''] ''c1'' = Inr (blank_company ''c1'') \<and>
   map_of [(''k1'', blank_customer\<lparr>k_phone := Some ''302-555-0000'',
              k_address := Some \<lparr>a_street = Some ''1 Main St'', a_city = Some ''Dover'',
                                  a_state = None, a_zip = None\<rparr>\<rparr>)] ''k1''
     = Some (blank_customer\<lparr>k_phone := Some ''302-555-0000'',
              k_address := Some \<lparr>a_street = Some ''1 Main St'', a_city = Some ''Dover'',
                                  a_state = None, a_zip = None\<rparr>\<rparr>) \<and>
   (\<exists>company'.
      select_single
        (snd (link_company
           (Some \<lparr>fs_customers =
                     [(''k1'', blank_customer\<lparr>k_phone := Some ''302-555-0000'',
                         k_address := Some \<lparr>a_street = Some ''1 Main St'',
                           a_city = Some ''Dover'', a_state = None, a_zip = None\<rparr>\<rparr>)],
                  fs_estimates = [], fs_invoices = []\<rparr>)
           [blank_company ''c1''] ''2024-03-05T12:00:00.000Z'' (Some ''c1'') (Some ''k1'')))
        ''c1'' = Inr company' \<and>
      c_phone company' = Some ''302-555-0000'' \<and> c_address company' = Some ''1 Main St'' \<and>
      c_city company' = Some ''Dover'' \<and> c_state company' = None)"
proof -
  let ?d = "blank_customer\<lparr>k_phone := Some ''302-555-0000'',
              k_address := Some \<lparr>a_street = Some ''1 Main St'', a_city = Some ''Dover'',
                                  a_state = None, a_zip = None\<rparr>\<rparr>"
  let ?fs = "\<lparr>fs_customers = [(''k1'', ?d)], fs_estimates = [], fs_invoices = []\<rparr>"
  have t: "truthy (Some ''c1'')" "truthy (Some ''k1'')"
    by (simp_all add: truthy_def)
  have s: "select_single [blank_company ''c1''] (or_empty (Some ''c1'')) = Inr (blank_company ''c1'')"
    by (simp add: select_single_def or_empty_def blank_company_def)
  have m: "map_of (fs_customers ?fs) (or_empty (Some ''k1'')) = Some ?d"
    by (simp add: or_empty_def)
  from link_fills_only_guarded_fields [OF t s m, of "''2024-03-05T12:00:00.000Z''"]
  obtain company' where
    "select_single (snd (link_company (Some ?fs) [blank_company ''c1'']
        ''2024-03-05T12:00:00.000Z'' (Some ''c1'') (Some ''k1''))) (or_empty (Some ''c1''))
       = Inr company'"
    "c_phone company' = Some ''302-555-0000''" "c_address company' = Some ''1 Main St''"
    "c_city company' = Some ''Dover''" "c_state company' = None"
    by (auto simp: truthy_def blank_company_def blank_customer_def address_field_def)
  then show ?thesis
    using t s m by (auto simp: or_empty_def)
qed

subsection \<open>A customer id that is not in the external store\<close>

text \<open>
  C9 (amended). When the customer id has no document in \<^verbatim>\<open>customers\<close>, the link
  route raises nothing: it answers "Linked successfully", writes
  \<^verbatim>\<open>invoice_customer_id\<close> and \<^verbatim>\<open>updated_at\<close> on the company's row, and copies no
  contact or address field (name, phone, email, contact name, address, city, state and zip
  stay as they were). The only entries \<^verbatim>\<open>autoUpdated\<close> can hold are those of the date
  sync and of the type upgrade, which run on whatever estimates and invoices carry that
  id.
\<close>

theorem link_missing_customer:
  assumes "truthy companyId" "truthy invoiceCustomerId"
    and "select_single rows (or_empty companyId) = Inr company"
    and "map_of (fs_customers fs) (or_empty invoiceCustomerId) = None"
  shows "(\<exists>entries.
            fst (link_company (Some fs) rows now companyId invoiceCustomerId) =
              Json (LinkedSuccessfully entries) \<and>
            set entries \<subseteq> {TypeToCustomer, LastOrderDateSynced, LastEstimateDateSynced}) \<and>
         (\<exists>company'.
            select_single (snd (link_company (Some fs) rows now companyId invoiceCustomerId))
              (or_empty companyId) = Inr company' \<and>
            c_invoice_customer_id company' = Some (or_empty invoiceCustomerId) \<and>
            c_updated_at company' = now \<and>
            c_name company' = c_name company \<and>
            c_phone company' = c_phone company \<and>
            c_email company' = c_email company \<and>
            c_contact_name company' = c_contact_name company \<and>
            c_address company' = c_address company \<and>
            c_city company' = c_city company \<and>
            c_state company' = c_state company \<and>
            c_zip company' = c_zip company)"
proof -
  let ?u = "link_updates (Some fs) company (or_empty invoiceCustomerId) now"
  have l: "link_company (Some fs) rows now companyId invoiceCustomerId =
             (Json (LinkedSuccessfully (auto_updated ?u company)),
              update_rows ?u (or_empty companyId) rows)"
    using assms(1-3) by (rule link_company_ok)
  have s: "select_single (update_rows ?u (or_empty companyId) rows) (or_empty companyId) =
             Inr (apply_updates ?u company)"
    using assms(3) by (rule select_single_update_rows)
  have u: "?u = sync_dates fs company (or_empty invoiceCustomerId)
                  (initial_updates (or_empty invoiceCustomerId) now)"
    using assms(4) by (rule link_updates_missing)
  have e: "set (auto_updated ?u company) \<subseteq>
             {TypeToCustomer, LastOrderDateSynced, LastEstimateDateSynced}"
    unfolding u by (simp add: auto_updated_def link_fields truthy_None email_truthy_def)
  have f: "c_invoice_customer_id (apply_updates ?u company) = Some (or_empty invoiceCustomerId) \<and>
           c_updated_at (apply_updates ?u company) = now \<and>
           c_name (apply_updates ?u company) = c_name company \<and>
           c_phone (apply_updates ?u company) = c_phone company \<and>
           c_email (apply_updates ?u company) = c_email company \<and>
           c_contact_name (apply_updates ?u company) = c_contact_name company \<and>
           c_address (apply_updates ?u company) = c_address company \<and>
           c_city (apply_updates ?u company) = c_city company \<and>
           c_state (apply_updates ?u company) = c_state company \<and>
           c_zip (apply_updates ?u company) = c_zip company"
    unfolding u by (simp add: link_fields assigned_simps)
  have "fst (link_company (Some fs) rows now companyId invoiceCustomerId) =
          Json (LinkedSuccessfully (auto_updated ?u company))"
    by (simp only: l fst_conv)
  moreover have "select_single (snd (link_company (Some fs) rows now companyId invoiceCustomerId))
       (or_empty companyId) = Inr (apply_updates ?u company)"
    by (simp only: l snd_conv s)
  ultimately show ?thesis using e f by blast
qed

text \<open>
  C9 (as stated, refuted). The external store has no customer at all; linking company c1
  to the id "nobody" succeeds and writes the id on the company.
\<close>

theorem link_missing_customer_counterexample:
  "link_company (Some \<lparr>fs_customers = [], fs_estimates = [], fs_invoices = []\<rparr>)
     [blank_company ''c1''] ''2024-03-05T12:00:00.000Z'' (Some ''c1'') (Some ''nobody'') =
   (Json (LinkedSuccessfully []),
    [blank_company ''c1''\<lparr>c_invoice_customer_id := Some ''nobody'',
                           c_updated_at := ''2024-03-05T12:00:00.000Z''\<rparr>])"
  by (simp add: link_company_def select_single_def link_updates_def initial_updates_def
      sync_dates_def where_customer_def latest_date_def
      auto_updated_def update_rows_def apply_updates_def assigned_def truthy_def or_empty_def
      email_truthy_def blank_company_def)

text \<open>
  At a company with a phone and a customer id that has no document: the id is written and
  the phone stays.
\<close>

theorem link_missing_customer_witness:
  "truthy (Some ''c1'') \<and> truthy (Some ''nobody'') \<and>
   select_single [blank_company ''c1''\<lparr>c_phone := Some ''302-555-1212''\<rparr>] ''c1'' =
     Inr (blank_company ''c1''\<lparr>c_phone := Some ''302-555-1212''\<rparr>) \<and>
   map_of [(''k1'', blank_customer)] ''nobody'' = None \<and>
   (\<exists>company'.
      select_single
        (snd (link_company
           (Some \<lparr>fs_customers = [(''k1'', blank_customer)], fs_estimates = [],
                  fs_invoices = []\<rparr>)
           [blank_company ''c1''\<lparr>c_phone := Some ''302-555-1212''\<rparr>]
           ''2024-03-05T12:00:00.000Z'' (Some ''c1'') (Some ''nobody'')))
        ''c1'' = Inr company' \<and>
      c_invoice_customer_id company' = Some ''nobody'' \<and>
      c_phone company' = Some ''302-555-1212'')"
proof -
  let ?c = "blank_company ''c1''\<lparr>c_phone := Some ''302-555-1212''\<rparr>"
  let ?fs = "\<lparr>fs_customers = [(''k1'', blank_customer)], fs_estimates = [], fs_invoices = []\<rparr>"
  have t: "truthy (Some ''c1'')" "truthy (Some ''nobody'')"
    by (simp_all add: truthy_def)
  have s: "select_single [?c] (or_empty (Some ''c1'')) = Inr ?c"
    by (simp add: select_single_def or_empty_def blank_company_def)
  have m: "map_of (fs_customers ?fs) (or_empty (Some ''nobody'')) = None"
    by (simp add: or_empty_def)
  have p: "c_phone ?c = Some ''302-555-1212''"
    by (simp add: blank_company_def)
  from link_missing_customer [OF t s m, of "''2024-03-05T12:00:00.000Z''"] p
  have "\<exists>company'.
      select_single (snd (link_company (Some ?fs) [?c] ''2024-03-05T12:00:00.000Z''
          (Some ''c1'') (Some ''nobody''))) (or_empty (Some ''c1'')) = Inr company' \<and>
      c_invoice_customer_id company' = Some (or_empty (Some ''nobody'')) \<and>
      c_phone company' = Some ''302-555-1212''"
    by metis
  then show ?thesis
    using t s m by (simp add: or_empty_def)
qed

subsection \<open>Linking a second time\<close>

lemma apply_updates_noop:
  assumes "c_invoice_customer_id c = Some (u_invoice_customer_id u)"
    and "assigned (u_phone u) (c_phone c) = c_phone c"
    and "assigned (u_email u) (c_email c) = c_email c"
    and "assigned (u_contact_name u) (c_contact_name c) = c_contact_name c"
    and "assigned (u_address u) (c_address c) = c_address c"
    and "assigned (u_city u) (c_city c) = c_city c"
    and "assigned (u_state u) (c_state c) = c_state c"
    and "assigned (u_zip u) (c_zip c) = c_zip c"
    and "assigned (u_last_estimate_date u) (c_last_estimate_date c) = c_last_estimate_date c"
    and "assigned (u_last_order_date u) (c_last_order_date c) = c_last_order_date c"
    and "assigned (u_type u) (c_type c) = c_type c"
  shows "apply_updates u c = c\<lparr>c_updated_at := u_updated_at u\<rparr>"
  unfolding apply_updates_def assms(2-11) using assms(1) by simp

lemma enrich_blank: "enrich c blank_customer u = u"
  by (simp add: enrich_def blank_customer_def truthy_None full_name_def)

lemma sync_dates_empty:
  "sync_dates \<lparr>fs_customers = [], fs_estimates = [], fs_invoices = []\<rparr> c k u = u"
  by (simp add: sync_dates_def where_customer_def latest_date_def truthy_None)

text \<open>
  Every update is of one shape: no client behaves as a client with empty collections, and
  a missing document as a document with every field empty.
\<close>

lemma link_updates_shape:
  "\<exists>fs d. \<forall>c now. link_updates fso c k now =
      sync_dates fs c k (enrich c d (initial_updates k now))"
proof (cases fso)
  case None
  then have "\<forall>c now. link_updates fso c k now =
      sync_dates \<lparr>fs_customers = [], fs_estimates = [], fs_invoices = []\<rparr> c k
        (enrich c blank_customer (initial_updates k now))"
    by (simp add: link_updates_def enrich_blank sync_dates_empty)
  then show ?thesis by blast
next
  case (Some fs)
  show ?thesis
  proof (cases "map_of (fs_customers fs) k")
    case None
    with Some have "\<forall>c now. link_updates fso c k now =
        sync_dates fs c k (enrich c blank_customer (initial_updates k now))"
      by (simp add: link_updates_def enrich_blank)
    then show ?thesis by blast
  next
    case (Some d)
    with \<open>fso = Some fs\<close> have "\<forall>c now. link_updates fso c k now =
        sync_dates fs c k (enrich c d (initial_updates k now))"
      by (simp add: link_updates_def)
    then show ?thesis by blast
  qed
qed

text \<open>Guards that have fired, or could not fire, do not fire on the row they produced.\<close>

lemma refill_string:
  "c1 = (if \<not> truthy c0 \<and> truthy e then e else c0) \<Longrightarrow>
     (if \<not> truthy c1 \<and> truthy e then e else None) = None"
  by auto

lemma refill_name:
  "c1 = (if \<not> truthy c0 \<and> n \<noteq> [] then Some n else c0) \<Longrightarrow>
     (if \<not> truthy c1 \<and> n \<noteq> [] then Some n else None) = None"
  by (auto simp: truthy_def)

lemma refill_sub:
  "a1 = (if \<not> truthy a0 \<and> truthy s then s else a0) \<Longrightarrow>
   c1 = (if \<not> truthy a0 \<and> \<not> truthy c0 \<and> truthy e then e else c0) \<Longrightarrow>
     (if \<not> truthy a1 \<and> \<not> truthy c1 \<and> truthy e then e else None) = None"
  by (auto split: if_splits)

lemma refill_type:
  "c1 = (if has_inv \<and> c0 \<noteq> Some t then Some t else c0) \<Longrightarrow>
     (if has_inv \<and> c1 \<noteq> Some t then Some t else None) = None"
  by auto

lemma refill_email:
  "c1 = (if \<not> email_truthy c0 \<and> es then Some x else c0) \<Longrightarrow>
     (if \<not> email_truthy c1 \<and> es then Some x else None) = None \<or>
     ((if \<not> email_truthy c1 \<and> es then Some x else None) = c1 \<and> \<not> email_truthy c1)"
  by auto

lemma resync_date:
  "c1 = assigned (if truthy l then l else None) c0 \<Longrightarrow>
     assigned (if truthy l then l else None) c1 = c1"
  by (auto simp: assigned_truthy assigned_simps)


lemma relink:
  fixes fs :: firestore and c :: company and d :: customer
  shows "apply_updates
           (sync_dates fs (apply_updates (sync_dates fs c k (enrich c d (initial_updates k now))) c) k
              (enrich (apply_updates (sync_dates fs c k (enrich c d (initial_updates k now))) c) d
                 (initial_updates k now2)))
           (apply_updates (sync_dates fs c k (enrich c d (initial_updates k now))) c) =
         (apply_updates (sync_dates fs c k (enrich c d (initial_updates k now))) c)
           \<lparr>c_updated_at := now2\<rparr> \<and>
         auto_updated
           (sync_dates fs (apply_updates (sync_dates fs c k (enrich c d (initial_updates k now))) c) k
              (enrich (apply_updates (sync_dates fs c k (enrich c d (initial_updates k now))) c) d
                 (initial_updates k now2)))
           (apply_updates (sync_dates fs c k (enrich c d (initial_updates k now))) c) =
         filter sync_entry
           (auto_updated (sync_dates fs c k (enrich c d (initial_updates k now))) c)"
proof -
  define u1 where "u1 = sync_dates fs c k (enrich c d (initial_updates k now))"
  define c1 where "c1 = apply_updates u1 c"
  define u2 where "u2 = sync_dates fs c1 k (enrich c1 d (initial_updates k now2))"
  define le where "le = latest_date (where_customer k (fs_estimates fs))"
  define lo where "lo = latest_date (where_customer k (fs_invoices fs))"
  define has_inv where "has_inv = (where_customer k (fs_invoices fs) \<noteq> [])"
  note f = link_fields assigned_simps assigned_truthy
  have id1: "c_invoice_customer_id c1 = Some k"
    by (simp add: c1_def u1_def f)
  have p1: "c_phone c1 =
      (if \<not> truthy (c_phone c) \<and> truthy (k_phone d) then k_phone d else c_phone c)"
    by (simp add: c1_def u1_def f)
  have e1: "c_email c1 =
      (if \<not> email_truthy (c_email c) \<and> k_emailContacts d \<noteq> []
       then Some (email_or_self (hd (k_emailContacts d))) else c_email c)"
    by (simp add: c1_def u1_def f)
  have n1: "c_contact_name c1 =
      (if \<not> truthy (c_contact_name c) \<and> full_name (k_firstName d) (k_lastName d) \<noteq> []
       then Some (full_name (k_firstName d) (k_lastName d)) else c_contact_name c)"
    by (simp add: c1_def u1_def f)
  have a1: "c_address c1 =
      (if \<not> truthy (c_address c) \<and> truthy (address_field a_street d)
       then address_field a_street d else c_address c)"
    by (simp add: c1_def u1_def f)
  have ci1: "c_city c1 =
      (if \<not> truthy (c_address c) \<and> \<not> truthy (c_city c) \<and> truthy (address_field a_city d)
       then address_field a_city d else c_city c)"
    by (simp add: c1_def u1_def f)
  have st1: "c_state c1 =
      (if \<not> truthy (c_address c) \<and> \<not> truthy (c_state c) \<and> truthy (address_field a_state d)
       then address_field a_state d else c_state c)"
    by (simp add: c1_def u1_def f)
  have z1: "c_zip c1 =
      (if \<not> truthy (c_address c) \<and> \<not> truthy (c_zip c) \<and> truthy (address_field a_zip d)
       then address_field a_zip d else c_zip c)"
    by (simp add: c1_def u1_def f)
  have le1: "c_last_estimate_date c1 =
      assigned (if truthy le then le else None) (c_last_estimate_date c)"
    by (simp add: c1_def u1_def le_def f)
  have lo1: "c_last_order_date c1 =
      assigned (if truthy lo then lo else None) (c_last_order_date c)"
    by (simp add: c1_def u1_def lo_def f)
  have t1: "c_type c1 =
      (if has_inv \<and> c_type c \<noteq> Some ''Customer'' then Some ''Customer'' else c_type c)"
    by (simp add: c1_def u1_def has_inv_def f)
  have u2_id: "u_invoice_customer_id u2 = k" and u2_at: "u_updated_at u2 = now2"
    by (simp_all add: u2_def link_fields)
  have u2_phone: "u_phone u2 = None"
    using refill_string [OF p1] by (auto simp: u2_def link_fields split: if_splits)
  have u2_name: "u_contact_name u2 = None"
    using refill_name [OF n1] by (auto simp: u2_def link_fields split: if_splits)
  have u2_address: "u_address u2 = None"
    using refill_string [OF a1] by (auto simp: u2_def link_fields split: if_splits)
  have u2_city: "u_city u2 = None"
    using refill_sub [OF a1 ci1] by (auto simp: u2_def link_fields split: if_splits)
  have u2_state: "u_state u2 = None"
    using refill_sub [OF a1 st1] by (auto simp: u2_def link_fields split: if_splits)
  have u2_zip: "u_zip u2 = None"
    using refill_sub [OF a1 z1] by (auto simp: u2_def link_fields split: if_splits)
  have u2_type: "u_type u2 = None"
    using refill_type [OF t1] by (auto simp: u2_def has_inv_def link_fields split: if_splits)
  have u2_email: "u_email u2 = None \<or> (u_email u2 = c_email c1 \<and> \<not> email_truthy (c_email c1))"
    using refill_email [OF e1] by (auto simp: u2_def link_fields split: if_splits)
  have u2_le: "u_last_estimate_date u2 = (if truthy le then le else None)"
    and u2_lo: "u_last_order_date u2 = (if truthy lo then lo else None)"
    by (simp_all add: u2_def le_def lo_def link_fields)
  have u1_le: "u_last_estimate_date u1 = (if truthy le then le else None)"
    and u1_lo: "u_last_order_date u1 = (if truthy lo then lo else None)"
    by (simp_all add: u1_def le_def lo_def link_fields)
  have em: "assigned (u_email u2) (c_email c1) = c_email c1"
    using u2_email by (auto simp: assigned_def split: option.splits)
  have row: "apply_updates u2 c1 = c1\<lparr>c_updated_at := now2\<rparr>"
    using apply_updates_noop [of c1 u2]
    by (simp add: id1 u2_id u2_at u2_phone u2_name u2_address u2_city u2_state u2_zip u2_type
        em u2_le u2_lo resync_date [OF le1] resync_date [OF lo1] assigned_simps(1))
  have s2: "auto_updated u2 c1 =
      (if truthy lo then [LastOrderDateSynced] else []) @
      (if truthy le then [LastEstimateDateSynced] else [])"
    using u2_email
    by (auto simp: auto_updated_def u2_phone u2_name u2_city u2_type u2_le u2_lo truthy_None
        email_truthy_def)
  have s1: "filter sync_entry (auto_updated u1 c) =
      (if truthy lo then [LastOrderDateSynced] else []) @
      (if truthy le then [LastEstimateDateSynced] else [])"
    by (simp add: auto_updated_def u1_le u1_lo sync_entry_def truthy_None)
  show ?thesis
    using row s1 s2 unfolding u2_def c1_def u1_def by simp
qed

lemma filter_single_member:
  "filter P xs = [y] \<Longrightarrow> x \<in> set xs \<Longrightarrow> P x \<Longrightarrow> x = y"
proof -
  assume f: "filter P xs = [y]" and m: "x \<in> set xs" "P x"
  from m have "x \<in> set (filter P xs)" by simp
  with f show ?thesis by simp
qed

text \<open>
  The date syncs of any link: an entry for the order date exactly when the customer has an
  invoice with a date, and one for the estimate date exactly when the customer has an
  estimate with a date.
\<close>

lemma truthy_latest_step:
  "truthy (latest_step doc latest) \<longleftrightarrow> truthy latest \<or> truthy (d_date (snd doc))"
  by (auto simp: latest_step_def Let_def)

lemma truthy_fold_latest_step:
  "truthy (fold latest_step docs latest) \<longleftrightarrow>
     truthy latest \<or> list_ex (\<lambda>doc. truthy (d_date (snd doc))) docs"
  by (induction docs arbitrary: latest) (auto simp: truthy_latest_step)

lemma truthy_latest_date:
  "truthy (latest_date (where_customer cid docs)) \<longleftrightarrow> has_dated cid docs"
  by (simp add: latest_date_def has_dated_def truthy_fold_latest_step truthy_None)

lemma filter_sync_auto_updated:
  "filter sync_entry (auto_updated u c) =
     (if truthy (u_last_order_date u) then [LastOrderDateSynced] else []) @
     (if truthy (u_last_estimate_date u) then [LastEstimateDateSynced] else [])"
  by (simp add: auto_updated_def sync_entry_def)

lemma link_sync_entries:
  "filter sync_entry (auto_updated (link_updates fso c k now) c) = store_sync_entries fso k"
proof (cases fso)
  case None
  then show ?thesis
    by (simp add: link_updates_unconfigured auto_updated_initial store_sync_entries_def)
next
  case (Some fs)
  show ?thesis
  proof (cases "map_of (fs_customers fs) k")
    case None
    with Some show ?thesis
      by (simp add: link_updates_missing filter_sync_auto_updated link_fields
          truthy_latest_date truthy_None store_sync_entries_def)
  next
    case (Some d)
    with \<open>fso = Some fs\<close> show ?thesis
      by (simp add: link_updates_found filter_sync_auto_updated link_fields
          truthy_latest_date truthy_None store_sync_entries_def)
  qed
qed

text \<open>
  C7 (amended). After a link that succeeded, linking the same company to the same
  customer again, against the same external data, leaves the company's row as it is
  (apart from \<^verbatim>\<open>updated_at\<close>) and reports exactly the date-sync entries of the first
  run: no type upgrade, no phone, email, contact name or address entry. The date-sync
  entries are those the external store calls for, on the first run and on every repeat:
  "last order date synced" exactly when the store is configured and holds an invoice of
  the customer with a date, "last estimate date synced" exactly when it holds an estimate
  of the customer with a date.
\<close>

theorem relink_reports_only_syncs:
  assumes "link_company fso rows now companyId invoiceCustomerId =
             (Json (LinkedSuccessfully s1), rows1)"
  shows "link_company fso rows1 now2 companyId invoiceCustomerId =
           (Json (LinkedSuccessfully (filter sync_entry s1)),
            map (\<lambda>c. if c_id c = or_empty companyId then c\<lparr>c_updated_at := now2\<rparr> else c)
              rows1) \<and>
         filter sync_entry s1 = store_sync_entries fso (or_empty invoiceCustomerId)"
proof -
  let ?cid = "or_empty companyId" and ?k = "or_empty invoiceCustomerId"
  from link_company_okD [OF assms] obtain company
    where t: "truthy companyId" "truthy invoiceCustomerId"
      and sel: "select_single rows ?cid = Inr company"
    by blast
  obtain fs d where shape: "\<And>c t. link_updates fso c ?k t =
      sync_dates fs c ?k (enrich c d (initial_updates ?k t))"
    using link_updates_shape [of fso ?k] by blast
  define u1 where "u1 = link_updates fso company ?k now"
  define c1 where "c1 = apply_updates u1 company"
  define u2 where "u2 = link_updates fso c1 ?k now2"
  have first: "s1 = auto_updated u1 company" "rows1 = update_rows u1 ?cid rows"
    using assms link_company_ok [OF t sel, of fso now] by (simp_all add: u1_def)
  have sel1: "select_single rows1 ?cid = Inr c1"
    unfolding first c1_def using sel by (rule select_single_update_rows)
  have second: "link_company fso rows1 now2 companyId invoiceCustomerId =
      (Json (LinkedSuccessfully (auto_updated u2 c1)), update_rows u2 ?cid rows1)"
    using link_company_ok [OF t sel1, of fso now2] by (simp add: u2_def)
  have re: "apply_updates u2 c1 = c1\<lparr>c_updated_at := now2\<rparr>"
    "auto_updated u2 c1 = filter sync_entry (auto_updated u1 company)"
    using relink [of fs c1 ?k d now2]
    unfolding u2_def c1_def u1_def shape
    using relink [of fs company ?k d now now2] by simp_all
  have only: "\<And>x. x \<in> set rows1 \<Longrightarrow> c_id x = ?cid \<Longrightarrow> x = c1"
    using sel1 filter_single_member [of "\<lambda>x. c_id x = ?cid" rows1 c1]
    by (simp add: select_single_filter)
  have "update_rows u2 ?cid rows1 =
      map (\<lambda>c. if c_id c = ?cid then c\<lparr>c_updated_at := now2\<rparr> else c) rows1"
    unfolding update_rows_def
    by (rule map_cong [OF refl]) (auto simp: re(1) dest: only)
  moreover have "filter sync_entry s1 = store_sync_entries fso ?k"
    unfolding first(1) u1_def by (rule link_sync_entries)
  ultimately show ?thesis
    using second by (simp add: re(2) first(1))
qed

lemmas link_eval =
  link_company_def select_single_def link_updates_def initial_updates_def enrich_def
  enrich_address_def sync_dates_def where_customer_def latest_date_def latest_step_def
  auto_updated_def update_rows_def apply_updates_def assigned_def truthy_def or_empty_def
  email_truthy_def full_name_def blank_company_def blank_customer_def

text \<open>
  C7 (as stated, refuted). Customer k1 has one invoice dated 2024-02-01. The first link of
  company c1 reports the type upgrade and the order date; the second link of the linked
  row reports "last order date synced" again, so its summary is not empty.
\<close>

theorem relink_counterexample:
  "link_company
     (Some \<lparr>fs_customers = [(''k1'', blank_customer)], fs_estimates = [],
            fs_invoices = [(''i1'', \<lparr>d_customerId = ''k1'', d_date = Some ''2024-02-01''\<rparr>)]\<rparr>)
     [blank_company ''c1''] ''2024-03-05T12:00:00.000Z'' (Some ''c1'') (Some ''k1'') =
   (Json (LinkedSuccessfully [TypeToCustomer, LastOrderDateSynced]),
    [blank_company ''c1''\<lparr>c_type := Some ''Customer'', c_invoice_customer_id := Some ''k1'',
       c_last_order_date := Some ''2024-02-01'',
       c_updated_at := ''2024-03-05T12:00:00.000Z''\<rparr>]) \<and>
   link_company
     (Some \<lparr>fs_customers = [(''k1'', blank_customer)], fs_estimates = [],
            fs_invoices = [(''i1'', \<lparr>d_customerId = ''k1'', d_date = Some ''2024-02-01''\<rparr>)]\<rparr>)
     [blank_company ''c1''\<lparr>c_type := Some ''Customer'', c_invoice_customer_id := Some ''k1'',
        c_last_order_date := Some ''2024-02-01'',
        c_updated_at := ''2024-03-05T12:00:00.000Z''\<rparr>]
     ''2024-03-05T12:00:01.000Z'' (Some ''c1'') (Some ''k1'') =
   (Json (LinkedSuccessfully [LastOrderDateSynced]),
    [blank_company ''c1''\<lparr>c_type := Some ''Customer'', c_invoice_customer_id := Some ''k1'',
       c_last_order_date := Some ''2024-02-01'',
       c_updated_at := ''2024-03-05T12:00:01.000Z''\<rparr>])"
  by (simp add: link_eval)

text \<open>
  At a customer with a phone and one dated estimate: the first link reports the estimate date
  and the phone, the second only the estimate date, which is what the store calls for.
\<close>

theorem relink_reports_only_syncs_witness:
  "link_company
     (Some \<lparr>fs_customers = [(''k1'', blank_customer\<lparr>k_phone := Some ''302-555-0000''\<rparr>)],
            fs_estimates = [(''e1'', \<lparr>d_customerId = ''k1'', d_date = Some ''2024-01-15''\<rparr>)],
            fs_invoices = []\<rparr>)
     [blank_company ''c1''] ''2024-03-05T12:00:00.000Z'' (Some ''c1'') (Some ''k1'') =
   (Json (LinkedSuccessfully [LastEstimateDateSynced, PhoneAdded]),
    [blank_company ''c1''\<lparr>c_phone := Some ''302-555-0000'', c_invoice_customer_id := Some ''k1'',
       c_last_estimate_date := Some ''2024-01-15'',
       c_updated_at := ''2024-03-05T12:00:00.000Z''\<rparr>]) \<and>
   link_company
     (Some \<lparr>fs_customers = [(''k1'', blank_customer\<lparr>k_phone := Some ''302-555-0000''\<rparr>)],
            fs_estimates = [(''e1'', \<lparr>d_customerId = ''k1'', d_date = Some ''2024-01-15''\<rparr>)],
            fs_invoices = []\<rparr>)
     [blank_company ''c1''\<lparr>c_phone := Some ''302-555-0000'', c_invoice_customer_id := Some ''k1'',
        c_last_estimate_date := Some ''2024-01-15'',
        c_updated_at := ''2024-03-05T12:00:00.000Z''\<rparr>]
     ''2024-03-05T12:00:01.000Z'' (Some ''c1'') (Some ''k1'') =
   (Json (LinkedSuccessfully [LastEstimateDateSynced]),
    [blank_company ''c1''\<lparr>c_phone := Some ''302-555-0000'', c_invoice_customer_id := Some ''k1'',
       c_last_estimate_date := Some ''2024-01-15'',
       c_updated_at := ''2024-03-05T12:00:01.000Z''\<rparr>]) \<and>
   store_sync_entries
     (Some \<lparr>fs_customers = [(''k1'', blank_customer\<lparr>k_phone := Some ''302-555-0000''\<rparr>)],
            fs_estimates = [(''e1'', \<lparr>d_customerId = ''k1'', d_date = Some ''2024-01-15''\<rparr>)],
            fs_invoices = []\<rparr>) ''k1'' = [LastEstimateDateSynced]"
proof -
  let ?fs = "Some \<lparr>fs_customers = [(''k1'', blank_customer\<lparr>k_phone := Some ''302-555-0000''\<rparr>)],
            fs_estimates = [(''e1'', \<lparr>d_customerId = ''k1'', d_date = Some ''2024-01-15''\<rparr>)],
            fs_invoices = []\<rparr>"
  let ?rows1 = "[blank_company ''c1''\<lparr>c_phone := Some ''302-555-0000'',
       c_invoice_customer_id := Some ''k1'', c_last_estimate_date := Some ''2024-01-15'',
       c_updated_at := ''2024-03-05T12:00:00.000Z''\<rparr>]"
  have first: "link_company ?fs [blank_company ''c1''] ''2024-03-05T12:00:00.000Z''
      (Some ''c1'') (Some ''k1'') =
      (Json (LinkedSuccessfully [LastEstimateDateSynced, PhoneAdded]), ?rows1)"
    by (simp add: link_eval)
  have i: "c_id (blank_company ''c1'') = ''c1''"
    by (simp add: blank_company_def)
  from relink_reports_only_syncs [OF first, of "''2024-03-05T12:00:01.000Z''"] first i
  show ?thesis
    by (simp add: sync_entry_def or_empty_def)
qed

section \<open>Week buckets of the activity report\<close>

text \<open>
  C8 (the code departs from the claim). The route reads day of month and day of week in
  local time and formats the result in UTC, so the bucket depends on the host's time zone.
  On a host five hours west of UTC the Wednesday 2024-03-06, given as a date, is parsed as
  UTC midnight (Tuesday evening local time) and put into the bucket 2024-03-04, a Monday;
  so is the timestamp 2024-03-06T22:00:00. On a host one hour east of UTC the timestamp
  2024-03-06T00:00:00 is put into 2024-03-02, a Saturday. On a UTC host both forms go into
  2024-03-03, the Sunday of that week.
\<close>

theorem week_key_off_utc:
  "week_key (- 18000000) ''2024-03-06'' = Some ''2024-03-04'' \<and>
   week_key (- 18000000) ''2024-03-06T22:00:00'' = Some ''2024-03-04'' \<and>
   week_key 3600000 ''2024-03-06T00:00:00'' = Some ''2024-03-02'' \<and>
   week_key 0 ''2024-03-06'' = Some ''2024-03-03'' \<and>
   week_key 0 ''2024-03-06T00:00:00'' = Some ''2024-03-03''"
  by code_simp

end
